theory Spec2Isabelle
  imports Main "HOL-Library.Sublist"
begin

section \<open>Python values and primitives used by XandrAPI.py\<close>

text \<open>
  Every value the program handles is either typed by the operator (strings, integers) or
  decoded from a JSON response body by \<open>response.json()\<close>. The type \<open>json\<close> holds the
  decoded values: \<open>None\<close>, \<open>bool\<close>, \<open>int\<close>, \<open>str\<close>, \<open>list\<close> and \<open>dict\<close> (an association
  list in insertion order). Floating point numbers are left out. A character is a code
  point below 256.
\<close>

datatype json =
    JNull
  | JBool bool
  | JInt int
  | JStr string
  | JArr "json list"
  | JObj "(string \<times> json) list"

datatype exn_class =
    RequestException
  | ValueError
  | KeyError
  | TypeError
  | AttributeError
  | OSError
  | RetryError

text \<open>
  An exception: its class as the \<open>except\<close> clauses see it, the text \<open>str(e)\<close> gives, and
  \<open>e.response.text\<close> when the exception carries a response.
\<close>

datatype exn = Exn (cls: exn_class) (message: string) (response_text: "string option")

definition type_name :: "json \<Rightarrow> string" where
  "type_name v =
     (case v of JNull \<Rightarrow> ''NoneType'' | JBool _ \<Rightarrow> ''bool'' | JInt _ \<Rightarrow> ''int''
      | JStr _ \<Rightarrow> ''str'' | JArr _ \<Rightarrow> ''list'' | JObj _ \<Rightarrow> ''dict'')"

definition quoted :: "string \<Rightarrow> string" where
  "quoted s = [CHR 0x27] @ s @ [CHR 0x27]"

definition no_attribute :: "json \<Rightarrow> string \<Rightarrow> exn" where
  "no_attribute v a =
     Exn AttributeError (quoted (type_name v) @ '' object has no attribute '' @ quoted a) None"

definition type_error :: "json \<Rightarrow> string \<Rightarrow> exn" where
  "type_error v what =
     Exn TypeError (quoted (type_name v) @ '' object is not '' @ what) None"

definition key_error :: "string \<Rightarrow> exn" where
  "key_error k = Exn KeyError (quoted k) None"

text \<open>Truth value of a Python object, as \<open>if not x\<close> tests it.\<close>

fun truthy :: "json \<Rightarrow> bool" where
  "truthy JNull = False"
| "truthy (JBool b) = b"
| "truthy (JInt n) = (n \<noteq> 0)"
| "truthy (JStr s) = (s \<noteq> [])"
| "truthy (JArr xs) = (xs \<noteq> [])"
| "truthy (JObj kvs) = (kvs \<noteq> [])"

text \<open>\<open>v == n\<close> for an int \<open>n\<close> (a bool is an int in Python) and \<open>v == s\<close> for a str \<open>s\<close>.\<close>

fun py_eq_int :: "json \<Rightarrow> int \<Rightarrow> bool" where
  "py_eq_int (JInt m) n = (m = n)"
| "py_eq_int (JBool b) n = ((if b then 1 else 0) = n)"
| "py_eq_int _ n = False"

fun py_eq_str :: "json \<Rightarrow> string \<Rightarrow> bool" where
  "py_eq_str (JStr t) s = (t = s)"
| "py_eq_str _ s = False"

text \<open>\<open>k in v\<close> for a str \<open>k\<close>: key of a dict, element of a list, substring of a str.\<close>

fun is_substring :: "string \<Rightarrow> string \<Rightarrow> bool" where
  "is_substring k [] = (k = [])"
| "is_substring k (c # cs) = (prefix k (c # cs) \<or> is_substring k cs)"

fun py_in :: "string \<Rightarrow> json \<Rightarrow> exn + bool" where
  "py_in k (JObj kvs) = Inr (map_of kvs k \<noteq> None)"
| "py_in k (JArr xs) = Inr (JStr k \<in> set xs)"
| "py_in k (JStr s) = Inr (is_substring k s)"
| "py_in k v =
     Inl (Exn TypeError (''argument of type '' @ quoted (type_name v) @ '' is not iterable'') None)"

text \<open>\<open>v[k]\<close> for a str \<open>k\<close>.\<close>

fun py_getitem :: "json \<Rightarrow> string \<Rightarrow> exn + json" where
  "py_getitem (JObj kvs) k = (case map_of kvs k of Some x \<Rightarrow> Inr x | None \<Rightarrow> Inl (key_error k))"
| "py_getitem (JArr xs) k = Inl (Exn TypeError ''list indices must be integers or slices, not str'' None)"
| "py_getitem (JStr s) k = Inl (Exn TypeError (''string indices must be integers, not '' @ quoted ''str'') None)"
| "py_getitem v k = Inl (type_error v ''subscriptable'')"

text \<open>\<open>v.get(k, d)\<close>; \<open>v.get(k)\<close> is \<open>v.get(k, None)\<close>.\<close>

fun py_get_default :: "json \<Rightarrow> string \<Rightarrow> json \<Rightarrow> exn + json" where
  "py_get_default (JObj kvs) k d = Inr (case map_of kvs k of Some x \<Rightarrow> x | None \<Rightarrow> d)"
| "py_get_default v k d = Inl (no_attribute v ''get'')"

definition py_get :: "json \<Rightarrow> string \<Rightarrow> exn + json" where
  "py_get v k = py_get_default v k JNull"

text \<open>\<open>d[k] = x\<close> on a dict: the key keeps its place, a new key goes last.\<close>

fun dict_set :: "string \<Rightarrow> json \<Rightarrow> (string \<times> json) list \<Rightarrow> (string \<times> json) list" where
  "dict_set k x [] = [(k, x)]"
| "dict_set k x (p # ps) = (if fst p = k then (k, x) # ps else p # dict_set k x ps)"

fun py_setitem :: "json \<Rightarrow> string \<Rightarrow> json \<Rightarrow> exn + json" where
  "py_setitem (JObj kvs) k x = Inr (JObj (dict_set k x kvs))"
| "py_setitem (JArr xs) k x =
     Inl (Exn TypeError ''list indices must be integers or slices, not str'' None)"
| "py_setitem v k x =
     Inl (Exn TypeError (quoted (type_name v) @ '' object does not support item assignment'') None)"

text \<open>The elements a \<open>for\<close> loop visits.\<close>

fun py_iter :: "json \<Rightarrow> exn + json list" where
  "py_iter (JArr xs) = Inr xs"
| "py_iter (JObj kvs) = Inr (map (\<lambda>p. JStr (fst p)) kvs)"
| "py_iter (JStr s) = Inr (map (\<lambda>c. JStr [c]) s)"
| "py_iter v = Inl (type_error v ''iterable'')"

text \<open>\<open>v.append(x)\<close>.\<close>

fun py_append :: "json \<Rightarrow> json \<Rightarrow> exn + json" where
  "py_append (JArr xs) x = Inr (JArr (xs @ [x]))"
| "py_append v x = Inl (no_attribute v ''append'')"

text \<open>\<open>str.strip()\<close> and \<open>str.lower()\<close> on code points below 256.\<close>

definition py_isspace :: "char \<Rightarrow> bool" where
  "py_isspace c =
     (let n = (of_char c :: nat)
      in (9 \<le> n \<and> n \<le> 13) \<or> (28 \<le> n \<and> n \<le> 32) \<or> n = 133 \<or> n = 160)"

definition strip :: "string \<Rightarrow> string" where
  "strip s = rev (dropWhile py_isspace (rev (dropWhile py_isspace s)))"

definition lower_char :: "char \<Rightarrow> char" where
  "lower_char c =
     (let n = (of_char c :: nat)
      in if (65 \<le> n \<and> n \<le> 90) \<or> (192 \<le> n \<and> n \<le> 222 \<and> n \<noteq> 215)
         then char_of (n + 32) else c)"

definition lower :: "string \<Rightarrow> string" where
  "lower s = map lower_char s"

fun py_strip :: "json \<Rightarrow> exn + string" where
  "py_strip (JStr s) = Inr (strip s)"
| "py_strip v = Inl (no_attribute v ''strip'')"

section \<open>The outside world: HTTP, log file, Streamlit page, clock\<close>

text \<open>
  A formatted string (an f-string) is kept as its pieces: literal text and \<open>str(...)\<close> of
  the values formatted into it.
\<close>

datatype frag = S string | V json

type_synonym fstring = "frag list"

datatype body = NoBody | JsonBody json | DataBody string

record request =
  http_method :: string
  url :: fstring
  headers :: "(string \<times> string) list"
  params :: "(string \<times> string) list"
  payload :: body

text \<open>
  What a \<open>requests\<close> response object gives: the exception \<open>raise_for_status()\<close> raises,
  if any; the result of \<open>.json()\<close>; the bytes of \<open>.content\<close>.
\<close>

record response =
  status_error :: "exn option"
  json_body :: "exn + json"
  content :: string

datatype reply = Raise exn | Response response

datatype level = INFO | ERROR

datatype ui = UiError | UiWarning | UiSuccess | UiJson | UiDownloadButton

datatype event =
    Http request reply
  | Log level fstring
  | Ui ui fstring
  | Sleep nat
  | FileWrite fstring string

type_synonym world = "event list"

text \<open>
  The environment: what the n-th call of \<open>requests\<close> in the run (counting from 0) gives,
  as a function of the request; whether writing a file fails; what the clock formats to.
  What a call gives is the reply of the server, or the exception the call raises: for the
  network, or for the request itself, since \<open>requests\<close> refuses some header values before
  it sends anything (\<open>through_requests\<close> below). An \<open>Http\<close> event records the call and
  what it gave.
\<close>

record env =
  net :: "nat \<Rightarrow> request \<Rightarrow> reply"
  disk :: "fstring \<Rightarrow> exn option"
  clock :: string

fun is_http :: "event \<Rightarrow> bool" where
  "is_http (Http _ _) = True"
| "is_http _ = False"

definition n_calls :: "world \<Rightarrow> nat" where
  "n_calls w = length (filter is_http w)"

definition XANDR_BASE_URL :: string where
  "XANDR_BASE_URL = ''https://api.appnexus.com''"

text \<open>
  \<open>requests.X(...)\<close>: the call gives what the environment gives for it, a response or an
  exception (also one that \<open>requests\<close> raises before anything is sent), and is recorded.
\<close>

definition send :: "env \<Rightarrow> request \<Rightarrow> world \<Rightarrow> reply \<times> world" where
  "send e r w = (let rep = net e (n_calls w) r in (rep, w @ [Http r rep]))"

text \<open>
  \<open>resp = requests.X(...); resp.raise_for_status()\<close>: the response, or the exception
  either statement raises.
\<close>

definition send_checked :: "env \<Rightarrow> request \<Rightarrow> world \<Rightarrow> (exn + response) \<times> world" where
  "send_checked e r w =
     (case send e r w of
        (Raise x, w1) \<Rightarrow> (Inl x, w1)
      | (Response resp, w1) \<Rightarrow>
          (case status_error resp of Some x \<Rightarrow> (Inl x, w1) | None \<Rightarrow> (Inr resp, w1)))"

definition auth :: "string \<Rightarrow> (string \<times> string) list" where
  "auth token = [(''Authorization'', token)]"

text \<open>\<open>requests.get(u, headers={"Authorization": token})\<close> as a request.\<close>

definition get_request :: "string \<Rightarrow> fstring \<Rightarrow> request" where
  "get_request token u =
     \<lparr>http_method = ''GET'', url = u, headers = auth token, params = [], payload = NoBody\<rparr>"

text \<open>
  \<open>repr\<close> of a str and of a bytes object, on code points below 256: the quote is the
  apostrophe, or the quotation mark when the text holds an apostrophe and no quotation
  mark; the quote and the backslash are written after a backslash, tab, newline and
  return as a backslash and the letter t, n or r, and every other character that is not
  printable (for bytes, not printable ASCII) as a backslash, the letter x and two
  hexadecimal digits.
\<close>

definition hex_pair :: "nat \<Rightarrow> string" where
  "hex_pair n = [''0123456789abcdef'' ! (n div 16), ''0123456789abcdef'' ! (n mod 16)]"

definition repr_quote :: "string \<Rightarrow> char" where
  "repr_quote s = (if CHR 0x27 \<in> set s \<and> CHR 0x22 \<notin> set s then CHR 0x22 else CHR 0x27)"

definition repr_char :: "bool \<Rightarrow> char \<Rightarrow> char \<Rightarrow> string" where
  "repr_char is_bytes q c =
     (let n = (of_char c :: nat)
      in if c = q \<or> n = 92 then [CHR 0x5C, c]
         else if n = 9 then [CHR 0x5C, CHR ''t'']
         else if n = 10 then [CHR 0x5C, CHR ''n'']
         else if n = 13 then [CHR 0x5C, CHR ''r'']
         else if n < 32 \<or> n = 127 then [CHR 0x5C, CHR ''x''] @ hex_pair n
         else if n < 127 then [c]
         else if is_bytes \<or> n \<le> 160 \<or> n = 173 then [CHR 0x5C, CHR ''x''] @ hex_pair n
         else [c])"

definition py_repr :: "string \<Rightarrow> string" where
  "py_repr s = [repr_quote s] @ concat (map (repr_char False (repr_quote s)) s) @ [repr_quote s]"

definition bytes_repr :: "string \<Rightarrow> string" where
  "bytes_repr s =
     [CHR ''b'', repr_quote s] @ concat (map (repr_char True (repr_quote s)) s) @ [repr_quote s]"

text \<open>
  What \<open>requests\<close> does with the values of the headers before the request leaves
  (\<open>check_header_validity\<close> in requests/utils.py, from version 2.28 on): a str value has
  to be empty, or to begin with a character that is no white space and to hold neither a
  return nor a newline, a newline that ends the value not being looked at (the pattern
  ends in \<open>$\<close>); otherwise \<open>InvalidHeader\<close>, a \<open>RequestException\<close>, is raised with \<open>repr\<close>
  of the value in its text. A value that has passed and ends with a newline is refused
  by \<open>http.client\<close>, which raises \<open>ValueError\<close> with \<open>repr\<close> of the encoded value in its
  text. Nothing is sent in either case.
\<close>

definition header_value_ok :: "string \<Rightarrow> bool" where
  "header_value_ok v =
     (let s = (if v \<noteq> [] \<and> last v = CHR 0x0A then butlast v else v)
      in if s = [] then True
         else if py_isspace (hd s) then False
         else CHR 0x0A \<notin> set s \<and> CHR 0x0D \<notin> set s)"

definition invalid_header :: "string \<Rightarrow> exn" where
  "invalid_header v =
     Exn RequestException
       (''Invalid leading whitespace, reserved character(s), or return character(s) in header value: ''
        @ py_repr v) None"

definition illegal_header_value :: "string \<Rightarrow> exn" where
  "illegal_header_value v = Exn ValueError (''Invalid header value '' @ bytes_repr v) None"

definition headers_error :: "(string \<times> string) list \<Rightarrow> exn option" where
  "headers_error hs =
     (case filter (\<lambda>v. \<not> header_value_ok v) (map snd hs) of
        v # vs \<Rightarrow> Some (invalid_header v)
      | [] \<Rightarrow>
          (case filter (\<lambda>v. v \<noteq> [] \<and> last v = CHR 0x0A) (map snd hs) of
             v # vs \<Rightarrow> Some (illegal_header_value v)
           | [] \<Rightarrow> None))"

text \<open>
  The environment that \<open>requests\<close> makes of a server: a call with a header value that is
  refused raises, and any other call gives what the server gives.
\<close>

definition through_requests :: "env \<Rightarrow> env" where
  "through_requests server =
     server\<lparr>net := (\<lambda>n r. case headers_error (headers r) of
                                 Some x \<Rightarrow> Raise x
                               | None \<Rightarrow> net server n r)\<rparr>"

text \<open>
  The test \<open>a not in j or b not in j[a]\<close> that every resolver makes on a decoded reply.
\<close>

definition lacks :: "string \<Rightarrow> string \<Rightarrow> json \<Rightarrow> exn + bool" where
  "lacks a b j =
     (case py_in a j of
        Inl x \<Rightarrow> Inl x
      | Inr False \<Rightarrow> Inr True
      | Inr True \<Rightarrow>
          (case py_getitem j a of
             Inl x \<Rightarrow> Inl x
           | Inr r \<Rightarrow> (case py_in b r of Inl x \<Rightarrow> Inl x | Inr present \<Rightarrow> Inr (\<not> present))))"

section \<open>Transport: make_api_request\<close>

definition api_request_failed :: "exn \<Rightarrow> world \<Rightarrow> (exn + json) \<times> world" where
  "api_request_failed x w =
     (if cls x = RequestException then
        (Inr JNull, w @ [Ui UiError [S ''API request failed: '', S (message x)],
                         Log ERROR [S ''API request failed: '', S (message x)]])
      else if cls x = ValueError then
        (Inr JNull, w @ [Ui UiError [S ''Invalid JSON response: '', S (message x)],
                         Log ERROR [S ''Invalid JSON response: '', S (message x)]])
      else (Inl x, w))"

definition make_api_request ::
  "env \<Rightarrow> string \<Rightarrow> fstring \<Rightarrow> (string \<times> string) list \<Rightarrow> (string \<times> string) list \<Rightarrow> body \<Rightarrow> world
   \<Rightarrow> (exn + json) \<times> world" where
  "make_api_request e m u h p b w =
     (case send_checked e \<lparr>http_method = m, url = u, headers = h, params = p, payload = b\<rparr> w of
        (Inl x, w1) \<Rightarrow> api_request_failed x w1
      | (Inr resp, w1) \<Rightarrow>
          (case json_body resp of Inl x \<Rightarrow> api_request_failed x w1 | Inr j \<Rightarrow> (Inr j, w1)))"

section \<open>Resolvers\<close>

text \<open>The list comprehension of \<open>get_cities_for_country\<close>, city by city.\<close>

fun filter_cities :: "string \<Rightarrow> json list \<Rightarrow> exn + json list" where
  "filter_cities country_name [] = Inr []"
| "filter_cities country_name (city # rest) =
     (case py_getitem city ''country_name'' of
        Inl x \<Rightarrow> Inl x
      | Inr c \<Rightarrow>
          (case py_strip c of
             Inl x \<Rightarrow> Inl x
           | Inr s \<Rightarrow>
               if lower s = lower (strip country_name) then
                 (case py_getitem city ''id'' of
                    Inl x \<Rightarrow> Inl x
                  | Inr i \<Rightarrow>
                      (case py_getitem city ''name'' of
                         Inl x \<Rightarrow> Inl x
                       | Inr n \<Rightarrow>
                           (case filter_cities country_name rest of
                              Inl x \<Rightarrow> Inl x
                            | Inr out \<Rightarrow> Inr (JObj [(''id'', i), (''name'', n)] # out))))
               else filter_cities country_name rest))"

definition get_cities_for_country :: "env \<Rightarrow> string \<Rightarrow> string \<Rightarrow> world \<Rightarrow> (exn + json) \<times> world" where
  "get_cities_for_country e token country_name w =
     (case make_api_request e ''GET'' [S XANDR_BASE_URL, S ''/city''] (auth token)
             [(''active'', ''true'')] NoBody w of
        (Inl x, w1) \<Rightarrow> (Inl x, w1)
      | (Inr json_response, w1) \<Rightarrow>
          if \<not> truthy json_response then (Inr JNull, w1)
          else
            (case lacks ''response'' ''cities'' json_response of
               Inl x \<Rightarrow> (Inl x, w1)
             | Inr True \<Rightarrow>
                 (Inr JNull,
                  w1 @ [Ui UiError [S ''Unexpected API response structure when fetching cities for '',
                                    S country_name, S ''.''],
                        Log ERROR [S ''Unexpected API response: '', V json_response]])
             | Inr False \<Rightarrow>
                 (case py_getitem json_response ''response'' of
                    Inl x \<Rightarrow> (Inl x, w1)
                  | Inr r \<Rightarrow>
                      (case py_getitem r ''cities'' of
                         Inl x \<Rightarrow> (Inl x, w1)
                       | Inr cities_data \<Rightarrow>
                           (case py_iter cities_data of
                              Inl x \<Rightarrow> (Inl x, w1)
                            | Inr cities \<Rightarrow>
                                (case filter_cities country_name cities of
                                   Inl x \<Rightarrow> (Inl x, w1)
                                 | Inr filtered_data \<Rightarrow>
                                     if filtered_data = [] then
                                       (Inr JNull,
                                        w1 @ [Ui UiWarning [S ''No active cities found for country: '',
                                                            S country_name, S ''.'']])
                                     else (Inr (JArr filtered_data), w1)))))))"

fun item_ids :: "json list \<Rightarrow> exn + json list" where
  "item_ids [] = Inr []"
| "item_ids (item # rest) =
     (case py_getitem item ''id'' of
        Inl x \<Rightarrow> Inl x
      | Inr i \<Rightarrow> (case item_ids rest of Inl x \<Rightarrow> Inl x | Inr out \<Rightarrow> Inr (i # out)))"

definition get_line_item_ids_from_io :: "env \<Rightarrow> string \<Rightarrow> int \<Rightarrow> world \<Rightarrow> (exn + json) \<times> world" where
  "get_line_item_ids_from_io e token insertion_order_id w =
     (case make_api_request e ''GET''
             [S XANDR_BASE_URL, S ''/insertion-order?id='', V (JInt insertion_order_id)]
             (auth token) [] NoBody w of
        (Inl x, w1) \<Rightarrow> (Inl x, w1)
      | (Inr json_response, w1) \<Rightarrow>
          if \<not> truthy json_response then (Inr JNull, w1)
          else
            (case lacks ''response'' ''insertion-order'' json_response of
               Inl x \<Rightarrow> (Inl x, w1)
             | Inr True \<Rightarrow>
                 (Inr JNull,
                  w1 @ [Ui UiError [S ''Unexpected API response structure for insertion order ID: '',
                                    V (JInt insertion_order_id), S ''.''],
                        Log ERROR [S ''Unexpected API response: '', V json_response]])
             | Inr False \<Rightarrow>
                 (case py_getitem json_response ''response'' of
                    Inl x \<Rightarrow> (Inl x, w1)
                  | Inr r \<Rightarrow>
                      (case py_getitem r ''insertion-order'' of
                         Inl x \<Rightarrow> (Inl x, w1)
                       | Inr io \<Rightarrow>
                           (case py_getitem io ''line_items'' of
                              Inl x \<Rightarrow> (Inl x, w1)
                            | Inr line_items \<Rightarrow>
                                (case py_iter line_items of
                                   Inl x \<Rightarrow> (Inl x, w1)
                                 | Inr items \<Rightarrow>
                                     (case item_ids items of
                                        Inl x \<Rightarrow> (Inl x, w1)
                                      | Inr ids \<Rightarrow> (Inr (JArr ids), w1))))))))"

definition get_profile_id_for_line_item :: "env \<Rightarrow> string \<Rightarrow> json \<Rightarrow> world \<Rightarrow> (exn + json) \<times> world" where
  "get_profile_id_for_line_item e token line_item_id w =
     (case make_api_request e ''GET'' [S XANDR_BASE_URL, S ''/line-item?id='', V line_item_id]
             (auth token) [] NoBody w of
        (Inl x, w1) \<Rightarrow> (Inl x, w1)
      | (Inr json_response, w1) \<Rightarrow>
          if \<not> truthy json_response then (Inr JNull, w1)
          else
            (case lacks ''response'' ''line-item'' json_response of
               Inl x \<Rightarrow> (Inl x, w1)
             | Inr True \<Rightarrow>
                 (Inr JNull,
                  w1 @ [Ui UiError [S ''Unexpected API response structure for line item ID: '',
                                    V line_item_id, S ''.''],
                        Log ERROR [S ''Unexpected API response: '', V json_response]])
             | Inr False \<Rightarrow>
                 (case py_getitem json_response ''response'' of
                    Inl x \<Rightarrow> (Inl x, w1)
                  | Inr r \<Rightarrow>
                      (case py_getitem r ''line-item'' of
                         Inl x \<Rightarrow> (Inl x, w1)
                       | Inr li \<Rightarrow>
                           (case py_getitem li ''profile_id'' of
                              Inl x \<Rightarrow> (Inl x, w1)
                            | Inr profile_id \<Rightarrow> (Inr profile_id, w1))))))"

section \<open>The retry decorator\<close>

text \<open>
  \<open>@retry(stop=stop_after_attempt(3), wait=wait_exponential(multiplier=1, min=2, max=10))\<close>
  of the tenacity library: the decorated function is called; a value it returns is
  returned at once; when it raises, the call is repeated after a sleep, and after the
  third raising attempt \<open>RetryError\<close> is raised. The text of that exception holds a memory
  address and is never printed by this program; the model leaves it empty.
\<close>

definition wait_exponential :: "nat \<Rightarrow> nat" where
  "wait_exponential attempt_number = max 2 (min (1 * 2 ^ (attempt_number - 1)) 10)"

function retry_from :: "nat \<Rightarrow> (world \<Rightarrow> (exn + 'a) \<times> world) \<Rightarrow> world \<Rightarrow> (exn + 'a) \<times> world" where
  "retry_from attempt_number f w =
     (case f w of
        (Inr v, w1) \<Rightarrow> (Inr v, w1)
      | (Inl x, w1) \<Rightarrow>
          if attempt_number \<ge> 3 then (Inl (Exn RetryError [] None), w1)
          else retry_from (attempt_number + 1) f (w1 @ [Sleep (wait_exponential attempt_number)]))"
  by pat_completeness auto
termination
  by (relation "measure (\<lambda>(n, f, w). 3 - n)") auto

declare retry_from.simps [simp del]

definition retry :: "(world \<Rightarrow> (exn + 'a) \<times> world) \<Rightarrow> world \<Rightarrow> (exn + 'a) \<times> world" where
  "retry f w = retry_from 1 f w"

section \<open>Mutating calls\<close>

text \<open>The body of \<open>update_line_item_profile_geo\<close>, and the decorated function.\<close>

definition geo_failed :: "json \<Rightarrow> exn \<Rightarrow> world \<Rightarrow> (exn + bool) \<times> world" where
  "geo_failed profile_id x w =
     (if cls x = RequestException then
        (Inr False,
         w @ [Ui UiError [S ''Error updating geo targeting for profile ID '', V profile_id,
                          S '': '', S (message x)],
              Log ERROR [S ''Error updating geo targeting for profile ID '', V profile_id,
                         S '': '', S (message x)]])
      else (Inl x, w))"

definition geo_put_request :: "string \<Rightarrow> json \<Rightarrow> json \<Rightarrow> request" where
  "geo_put_request token profile_id city_targets =
     \<lparr>http_method = ''PUT'', url = [S XANDR_BASE_URL, S ''/profile?id='', V profile_id],
      headers = auth token, params = [],
      payload = JsonBody (JObj [(''profile'',
                  JObj [(''id'', profile_id), (''city_targets'', city_targets),
                        (''city_action'', JStr ''include'')])])\<rparr>"

definition update_line_item_profile_geo_body ::
  "env \<Rightarrow> string \<Rightarrow> json \<Rightarrow> json \<Rightarrow> world \<Rightarrow> (exn + bool) \<times> world" where
  "update_line_item_profile_geo_body e token profile_id city_targets w =
     (case send_checked e (geo_put_request token profile_id city_targets) w of
        (Inl x, w1) \<Rightarrow> geo_failed profile_id x w1
      | (Inr resp, w1) \<Rightarrow> (Inr True, w1))"

definition update_line_item_profile_geo ::
  "env \<Rightarrow> string \<Rightarrow> json \<Rightarrow> json \<Rightarrow> world \<Rightarrow> (exn + bool) \<times> world" where
  "update_line_item_profile_geo e token profile_id city_targets =
     retry (update_line_item_profile_geo_body e token profile_id city_targets)"

text \<open>
  Step 3 of \<open>update_conversion_pixel\<close>: the loop over the fetched pixels, which stops at
  the first entry whose id equals the requested one and sets its state; \<open>None\<close> when the
  loop ends without a match.
\<close>

fun activate_first :: "int \<Rightarrow> json list \<Rightarrow> exn + json list option" where
  "activate_first pixel_id [] = Inr None"
| "activate_first pixel_id (pixel # rest) =
     (case py_get pixel ''id'' of
        Inl x \<Rightarrow> Inl x
      | Inr i \<Rightarrow>
          if py_eq_int i pixel_id then
            (case py_setitem pixel ''state'' (JStr ''active'') of
               Inl x \<Rightarrow> Inl x
             | Inr pixel' \<Rightarrow> Inr (Some (pixel' # rest)))
          else
            (case activate_first pixel_id rest of
               Inl x \<Rightarrow> Inl x
             | Inr None \<Rightarrow> Inr None
             | Inr (Some rest') \<Rightarrow> Inr (Some (pixel # rest'))))"

definition new_pixel :: "int \<Rightarrow> json" where
  "new_pixel pixel_id = JObj [(''id'', JInt pixel_id), (''state'', JStr ''active'')]"

fun upsert_pixel :: "int \<Rightarrow> json \<Rightarrow> exn + json" where
  "upsert_pixel pixel_id (JArr pixels) =
     (case activate_first pixel_id pixels of
        Inl x \<Rightarrow> Inl x
      | Inr (Some pixels') \<Rightarrow> Inr (JArr pixels')
      | Inr None \<Rightarrow> py_append (JArr pixels) (new_pixel pixel_id))"
| "upsert_pixel pixel_id existing_pixels =
     (case py_iter existing_pixels of
        Inl x \<Rightarrow> Inl x
      | Inr items \<Rightarrow>
          (case activate_first pixel_id items of
             Inl x \<Rightarrow> Inl x
           | Inr _ \<Rightarrow> py_append existing_pixels (new_pixel pixel_id)))"

definition pixel_failed :: "json \<Rightarrow> exn \<Rightarrow> world \<Rightarrow> (exn + bool) \<times> world" where
  "pixel_failed line_item_id x w =
     (if cls x = RequestException then
        (Inr False,
         w @ [Ui UiError [S ''Error updating conversion pixel for Line Item ID '', V line_item_id,
                          S '': '', S (message x)]]
           @ (case response_text x of
                Some t \<Rightarrow> [Log ERROR [S ''API Error Response: '', S t]]
              | None \<Rightarrow> [])
           @ [Log ERROR [S ''Error updating conversion pixel for Line Item ID '', V line_item_id,
                         S '': '', S (message x)]])
      else (Inl x, w))"

definition line_item_url :: "json \<Rightarrow> int \<Rightarrow> fstring" where
  "line_item_url line_item_id advertiser_id =
     [S XANDR_BASE_URL, S ''/line-item?id='', V line_item_id, S ''&advertiser_id='',
      V (JInt advertiser_id)]"

text \<open>Step 4: the PUT of the whole pixel array.\<close>

definition put_pixels :: "env \<Rightarrow> string \<Rightarrow> fstring \<Rightarrow> json \<Rightarrow> json \<Rightarrow> world \<Rightarrow> (exn + bool) \<times> world" where
  "put_pixels e token u line_item_id pixels w =
     (let update_data = JObj [(''line-item'', JObj [(''id'', line_item_id), (''pixels'', pixels)])];
          w1 = w @ [Log INFO (S ''PUT Request URL: '' # u),
                    Log INFO [S ''PUT Request Payload: '', V update_data]]
      in case send_checked e
                \<lparr>http_method = ''PUT'', url = u, headers = auth token, params = [],
                 payload = JsonBody update_data\<rparr> w1 of
           (Inl x, w2) \<Rightarrow> pixel_failed line_item_id x w2
         | (Inr update_response, w2) \<Rightarrow>
             (case json_body update_response of
                Inl x \<Rightarrow> pixel_failed line_item_id x w2
              | Inr j \<Rightarrow>
                  (Inr True,
                   w2 @ [Log INFO [S ''PUT Response for Line Item ID '', V line_item_id,
                                   S '': '', V j]])))"

text \<open>
  Step 2: the shape test and \<open>line_item_data['response']['line-item'].get('pixels', [])\<close>;
  \<open>None\<close> when the shape test fails.
\<close>

definition existing_pixels_of :: "json \<Rightarrow> exn + json option" where
  "existing_pixels_of line_item_data =
     (case lacks ''response'' ''line-item'' line_item_data of
        Inl x \<Rightarrow> Inl x
      | Inr True \<Rightarrow> Inr None
      | Inr False \<Rightarrow>
          (case py_getitem line_item_data ''response'' of
             Inl x \<Rightarrow> Inl x
           | Inr r \<Rightarrow>
               (case py_getitem r ''line-item'' of
                  Inl x \<Rightarrow> Inl x
                | Inr li \<Rightarrow>
                    (case py_get_default li ''pixels'' (JArr []) of
                       Inl x \<Rightarrow> Inl x
                     | Inr existing_pixels \<Rightarrow> Inr (Some existing_pixels)))))"

text \<open>Steps 2 to 4, from the decoded line item.\<close>

definition upsert_and_put ::
  "env \<Rightarrow> string \<Rightarrow> fstring \<Rightarrow> json \<Rightarrow> int \<Rightarrow> json \<Rightarrow> world \<Rightarrow> (exn + bool) \<times> world" where
  "upsert_and_put e token u line_item_id pixel_id line_item_data w =
     (case existing_pixels_of line_item_data of
        Inl x \<Rightarrow> pixel_failed line_item_id x w
      | Inr None \<Rightarrow>
          (Inr False,
           w @ [Ui UiError [S ''Unexpected API response structure for Line Item ID: '',
                            V line_item_id, S ''.''],
                Log ERROR [S ''Unexpected API response: '', V line_item_data]])
      | Inr (Some existing_pixels) \<Rightarrow>
          (let w1 = w @ [Log INFO [S ''Existing Pixels for Line Item ID '',
                                   V line_item_id, S '': '', V existing_pixels]]
           in case upsert_pixel pixel_id existing_pixels of
                Inl x \<Rightarrow> pixel_failed line_item_id x w1
              | Inr pixels \<Rightarrow> put_pixels e token u line_item_id pixels w1))"

definition update_conversion_pixel_body ::
  "env \<Rightarrow> string \<Rightarrow> int \<Rightarrow> json \<Rightarrow> int \<Rightarrow> world \<Rightarrow> (exn + bool) \<times> world" where
  "update_conversion_pixel_body e token advertiser_id line_item_id pixel_id w =
     (let u = line_item_url line_item_id advertiser_id;
          w0 = w @ [Log INFO (S ''GET Request URL: '' # u)]
      in case send_checked e (get_request token u) w0 of
           (Inl x, w1) \<Rightarrow> pixel_failed line_item_id x w1
         | (Inr resp, w1) \<Rightarrow>
             (case json_body resp of
                Inl x \<Rightarrow> pixel_failed line_item_id x w1
              | Inr line_item_data \<Rightarrow>
                  upsert_and_put e token u line_item_id pixel_id line_item_data
                    (w1 @ [Log INFO [S ''GET Response for Line Item ID '', V line_item_id,
                                     S '': '', V line_item_data]])))"

definition update_conversion_pixel ::
  "env \<Rightarrow> string \<Rightarrow> int \<Rightarrow> json \<Rightarrow> int \<Rightarrow> world \<Rightarrow> (exn + bool) \<times> world" where
  "update_conversion_pixel e token advertiser_id line_item_id pixel_id =
     retry (update_conversion_pixel_body e token advertiser_id line_item_id pixel_id)"

section \<open>Authentication\<close>

definition credentials :: "string \<Rightarrow> string \<Rightarrow> string" where
  \<open>credentials username password =
     ''{"auth": {"username": "'' @ username @ ''", "password": "'' @ password @ ''"}}''\<close>

definition authenticate :: "env \<Rightarrow> string \<Rightarrow> string \<Rightarrow> world \<Rightarrow> (exn + json) \<times> world" where
  "authenticate e username password w =
     (let failed = (\<lambda>x w1.
            if cls x = RequestException then
              (Inr JNull, w1 @ [Ui UiError [S ''Error during authentication: '', S (message x)],
                               Log ERROR [S ''Error during authentication: '', S (message x)]])
            else (Inl x, w1))
      in case send_checked e
                \<lparr>http_method = ''POST'', url = [S XANDR_BASE_URL, S ''/auth''], headers = [], params = [],
                 payload = DataBody (credentials username password)\<rparr> w of
           (Inl x, w1) \<Rightarrow> failed x w1
         | (Inr resp, w1) \<Rightarrow>
             (case json_body resp of
                Inl x \<Rightarrow> failed x w1
              | Inr json_response \<Rightarrow>
                  (case lacks ''response'' ''token'' json_response of
                     Inl x \<Rightarrow> failed x w1
                   | Inr True \<Rightarrow>
                       (Inr JNull,
                        w1 @ [Ui UiError [S ''Authentication failed. Please check your credentials.''],
                              Log ERROR [S ''Authentication failed: '', V json_response]])
                   | Inr False \<Rightarrow>
                       (case py_getitem json_response ''response'' of
                          Inl x \<Rightarrow> failed x w1
                        | Inr r \<Rightarrow>
                            (case py_getitem r ''token'' of
                               Inl x \<Rightarrow> failed x w1
                             | Inr token \<Rightarrow> (Inr token, w1))))))"

section \<open>Report orchestration: generate_and_poll_report\<close>

text \<open>\<open>report_payload["report"][k] = x\<close>, written back into the payload.\<close>

definition set_report_field :: "string \<Rightarrow> json \<Rightarrow> json \<Rightarrow> exn + json" where
  "set_report_field k x report_payload =
     (case py_getitem report_payload ''report'' of
        Inl err \<Rightarrow> Inl err
      | Inr r \<Rightarrow>
          (case py_setitem r k x of
             Inl err \<Rightarrow> Inl err
           | Inr r' \<Rightarrow> py_setitem report_payload ''report'' r'))"

text \<open>
  The four ways out of the polling loop: \<open>break\<close> on "ready", \<open>return\<close> on "error",
  \<open>return\<close> in the exception handler, and the loop's \<open>else\<close> branch once \<open>retries\<close>
  reaches \<open>max_retries\<close>.
\<close>

datatype poll_exit = Ready | Errored | PollFailed | TimedOut

definition poll_failed :: "exn \<Rightarrow> world \<Rightarrow> world" where
  "poll_failed x w =
     w @ [Ui UiError [S ''An error occurred while checking report status: '', S (message x)],
          Log ERROR [S ''Error while polling report status: '', S (message x)]]"

function poll_status :: "env \<Rightarrow> string \<Rightarrow> fstring \<Rightarrow> nat \<Rightarrow> world \<Rightarrow> poll_exit \<times> world" where
  "poll_status e token status_url retries w =
     (if retries < 10 then
        (case send_checked e (get_request token status_url) w of
           (Inl x, w1) \<Rightarrow> (PollFailed, poll_failed x w1)
         | (Inr status_response, w1) \<Rightarrow>
             (case json_body status_response of
                Inl x \<Rightarrow> (PollFailed, poll_failed x w1)
              | Inr status_data \<Rightarrow>
                  (case py_get status_data ''execution_status'' of
                     Inl x \<Rightarrow> (PollFailed, poll_failed x w1)
                   | Inr st \<Rightarrow>
                       if py_eq_str st ''ready'' then (Ready, w1)
                       else if py_eq_str st ''error'' then
                         (Errored,
                          w1 @ [Ui UiError [S ''An error occurred while generating the report.''],
                                Log ERROR [S ''Report generation error: '', V status_data]])
                       else poll_status e token status_url (retries + 1) (w1 @ [Sleep 5]))))
      else (TimedOut, w @ [Ui UiError [S ''Report generation timed out. Please try again later.'']]))"
  by pat_completeness auto
termination
  by (relation "measure (\<lambda>(e, token, status_url, retries, w). 10 - retries)") auto

declare poll_status.simps [simp del]

datatype download_exit = Downloaded | DownloadFailed

definition download_url :: "json \<Rightarrow> fstring" where
  "download_url report_id = [S XANDR_BASE_URL, S ''/report-download?id='', V report_id]"

definition download_report :: "env \<Rightarrow> string \<Rightarrow> json \<Rightarrow> world \<Rightarrow> download_exit \<times> world" where
  "download_report e token report_id w =
     (let failed = (\<lambda>x w1.
            w1 @ [Ui UiError [S ''An error occurred while downloading the report: '', S (message x)],
                  Log ERROR [S ''Error while downloading the report: '', S (message x)]])
      in case send_checked e (get_request token (download_url report_id)) w of
           (Inl x, w1) \<Rightarrow> (DownloadFailed, failed x w1)
         | (Inr report_data, w1) \<Rightarrow>
             (let file_name = [S ''site_domain_performance_'', S (clock e), S ''.xlsx'']
              in case disk e file_name of
                   Some x \<Rightarrow> (DownloadFailed, failed x w1)
                 | None \<Rightarrow>
                     (Downloaded,
                      w1 @ [FileWrite file_name (content report_data),
                            Ui UiSuccess [S ''Report downloaded successfully!''],
                            Ui UiDownloadButton (S ''Download Report'' # file_name)])))"

text \<open>
  The function returns \<open>None\<close> on every path; the model returns which \<open>return\<close> was taken.
  The two dates are given as \<open>strftime("%Y-%m-%d")\<close> formats them.
\<close>

datatype report_exit =
    CreateFailed
  | NoReportId
  | Polled poll_exit
  | Download download_exit

definition status_url :: "json \<Rightarrow> fstring" where
  "status_url report_id = [S XANDR_BASE_URL, S ''/report?id='', V report_id]"

text \<open>The function from \<open># Poll for Report Status\<close> to its end.\<close>

definition poll_and_download :: "env \<Rightarrow> string \<Rightarrow> json \<Rightarrow> world \<Rightarrow> report_exit \<times> world" where
  "poll_and_download e token report_id w =
     (case poll_status e token (status_url report_id) 0 w of
        (Ready, w3) \<Rightarrow>
          (case download_report e token report_id w3 of (d, w4) \<Rightarrow> (Download d, w4))
      | (x, w3) \<Rightarrow> (Polled x, w3))"

definition generate_and_poll_report ::
  "env \<Rightarrow> string \<Rightarrow> string \<Rightarrow> bool \<Rightarrow> string \<Rightarrow> string \<Rightarrow> json \<Rightarrow> json \<Rightarrow> world
   \<Rightarrow> (exn + report_exit) \<times> world" where
  "generate_and_poll_report e token advertiser_id_input use_custom_dates start_date end_date
       report_interval report_payload w =
     (case (if use_custom_dates then
              (case set_report_field ''start_date'' (JStr start_date) report_payload of
                 Inl x \<Rightarrow> Inl x
               | Inr p1 \<Rightarrow> set_report_field ''end_date'' (JStr end_date) p1)
            else set_report_field ''report_interval'' report_interval report_payload) of
        Inl x \<Rightarrow> (Inl x, w)
      | Inr report_payload' \<Rightarrow>
          (case make_api_request e ''POST''
                  [S XANDR_BASE_URL, S ''/report?advertiser_id='', S (strip advertiser_id_input)]
                  (auth token) [] (JsonBody report_payload') w of
             (Inl x, w1) \<Rightarrow> (Inl x, w1)
           | (Inr json_response, w1) \<Rightarrow>
               if \<not> truthy json_response then
                 (Inr CreateFailed,
                  w1 @ [Ui UiError [S ''Failed to generate the report. Please check the API response.'']])
               else
                 (let w2 = w1 @ [Log INFO [S ''API Response: '', V json_response],
                                 Ui UiJson [V json_response]]
                  in case py_get json_response ''report_id'' of
                       Inl x \<Rightarrow> (Inl x, w2)
                     | Inr report_id \<Rightarrow>
                         if \<not> truthy report_id then
                           (Inr NoReportId,
                            w2 @ [Ui UiError [S ''Failed to retrieve report ID. Please check the API response.'']])
                         else
                           (case poll_and_download e token report_id w2 of
                              (x, w3) \<Rightarrow> (Inr x, w3)))))"

section \<open>The two batch loops of the page\<close>

text \<open>
  The \<open>for line_item_id in line_item_ids\<close> loop of the geo targeting tab. An exception of
  a call ends the loop, as it ends the script run.
\<close>

fun geo_targeting_batch :: "env \<Rightarrow> string \<Rightarrow> json \<Rightarrow> json list \<Rightarrow> world \<Rightarrow> (exn + unit) \<times> world" where
  "geo_targeting_batch e token city_targets [] w = (Inr (), w)"
| "geo_targeting_batch e token city_targets (line_item_id # rest) w =
     (case get_profile_id_for_line_item e token line_item_id w of
        (Inl x, w1) \<Rightarrow> (Inl x, w1)
      | (Inr profile_id, w1) \<Rightarrow>
          if \<not> truthy profile_id then
            geo_targeting_batch e token city_targets rest
              (w1 @ [Ui UiError [S ''Profile ID not found for Line Item ID: '', V line_item_id]])
          else
            (case update_line_item_profile_geo e token profile_id city_targets w1 of
               (Inl x, w2) \<Rightarrow> (Inl x, w2)
             | (Inr success, w2) \<Rightarrow>
                 geo_targeting_batch e token city_targets rest
                   (w2 @ [if success
                          then Ui UiSuccess [S ''Geo targeting updated for Line Item ID: '', V line_item_id]
                          else Ui UiError [S ''Failed to update geo targeting for Line Item ID: '',
                                           V line_item_id]])))"

text \<open>The loop of the conversion pixel tab.\<close>

fun conversion_pixel_batch :: "env \<Rightarrow> string \<Rightarrow> int \<Rightarrow> int \<Rightarrow> json list \<Rightarrow> world \<Rightarrow> (exn + unit) \<times> world" where
  "conversion_pixel_batch e token advertiser_id pixel_id [] w = (Inr (), w)"
| "conversion_pixel_batch e token advertiser_id pixel_id (line_item_id # rest) w =
     (case update_conversion_pixel e token advertiser_id line_item_id pixel_id w of
        (Inl x, w1) \<Rightarrow> (Inl x, w1)
      | (Inr success, w1) \<Rightarrow>
          conversion_pixel_batch e token advertiser_id pixel_id rest
            (w1 @ [if success
                   then Ui UiSuccess [S ''Conversion pixel updated for Line Item ID: '', V line_item_id]
                   else Ui UiError [S ''Failed to update conversion pixel for Line Item ID: '',
                                    V line_item_id]]))"

section \<open>Notions used in the statements\<close>

text \<open>An entry of the pixel array has the id \<open>pixel_id\<close> when the loop's test \<open>pixel.get('id') == pixel_id\<close> holds for it.\<close>

definition has_id :: "int \<Rightarrow> json \<Rightarrow> bool" where
  "has_id pixel_id p = (case py_get p ''id'' of Inr i \<Rightarrow> py_eq_int i pixel_id | Inl _ \<Rightarrow> False)"

text \<open>How many entries of an array have the id.\<close>

definition count_id :: "int \<Rightarrow> json list \<Rightarrow> nat" where
  "count_id pixel_id ps = length (filter (has_id pixel_id) ps)"


text \<open>The bodies of the PUT requests of a run, in order.\<close>

fun put_payload :: "event \<Rightarrow> body list" where
  "put_payload (Http r rep) = (if http_method r = ''PUT'' then [payload r] else [])"
| "put_payload _ = []"

definition put_payloads :: "world \<Rightarrow> body list" where
  "put_payloads w = concat (map put_payload w)"

text \<open>An environment that answers the n-th HTTP call with the n-th reply of a list, and with a fixed reply after the list ends.\<close>

definition scripted :: "reply list \<Rightarrow> reply \<Rightarrow> env" where
  "scripted rs dflt =
     \<lparr>net = (\<lambda>n r. if n < length rs then rs ! n else dflt), disk = (\<lambda>f. None),
      clock = ''20240101_000000''\<rparr>"

text \<open>A reply with a 2xx status and a JSON body.\<close>

definition replied :: "json \<Rightarrow> reply" where
  "replied j = Response \<lparr>status_error = None, json_body = Inr j, content = []\<rparr>"

text \<open>The reply of \<open>GET /line-item\<close> for a line item with the given pixels.\<close>

definition line_item_reply :: "json \<Rightarrow> reply" where
  "line_item_reply pixels =
     replied (JObj [(''response'', JObj [(''line-item'', JObj [(''id'', JInt 111), (''pixels'', pixels)])])])"

definition ok_reply :: reply where
  "ok_reply = replied (JObj [(''response'', JObj [(''status'', JStr ''OK'')])])"

text \<open>A pixel entry with an id and a state.\<close>

definition pixel :: "int \<Rightarrow> string \<Rightarrow> json" where
  "pixel i st = JObj [(''id'', JInt i), (''state'', JStr st)]"

text \<open>The body of the PUT of \<open>update_conversion_pixel\<close> for a pixel array.\<close>

definition put_body :: "json \<Rightarrow> json \<Rightarrow> body" where
  "put_body line_item_id pixels =
     JsonBody (JObj [(''line-item'', JObj [(''id'', line_item_id), (''pixels'', pixels)])])"

text \<open>
  Every PUT among the events carries the upsert of a pixel array that a GET among the same
  events fetched.
\<close>

definition puts_follow_fetch :: "string \<Rightarrow> fstring \<Rightarrow> json \<Rightarrow> int \<Rightarrow> event list \<Rightarrow> bool" where
  "puts_follow_fetch token u line_item_id pixel_id es =
     (\<forall>b\<in>set (put_payloads es).
        \<exists>resp j existing pixels.
          Http (get_request token u) (Response resp) \<in> set es
        \<and> status_error resp = None \<and> json_body resp = Inr j
        \<and> existing_pixels_of j = Inr (Some existing)
        \<and> upsert_pixel pixel_id existing = Inr pixels
        \<and> b = put_body line_item_id pixels)"

text \<open>A transport failure: the call raises a \<open>RequestException\<close>.\<close>

definition transport_error :: reply where
  "transport_error = Raise (Exn RequestException ''503 Server Error: Service Unavailable'' (Some ''busy''))"

definition cities :: json where
  "cities = JArr [JObj [(''id'', JInt 7), (''name'', JStr ''Stockholm'')]]"

text \<open>
  The JSON text of a string (RFC 8259): the quotation mark, the backslash and the control
  characters are escaped.
\<close>

definition hex_digit :: "nat \<Rightarrow> char" where
  "hex_digit n = (if n < 10 then char_of (48 + n) else char_of (87 + n))"

definition json_escape :: "char \<Rightarrow> string" where
  "json_escape c =
     (if c = CHR 0x22 then [CHR 0x5C, CHR 0x22]
      else if c = CHR 0x5C then [CHR 0x5C, CHR 0x5C]
      else if c = CHR 0x0A then [CHR 0x5C, CHR ''n'']
      else if c = CHR 0x0D then [CHR 0x5C, CHR ''r'']
      else if c = CHR 0x09 then [CHR 0x5C, CHR ''t'']
      else if (of_char c :: nat) < 32 then
        [CHR 0x5C, CHR ''u'', CHR ''0'', CHR ''0'', hex_digit (of_char c div 16), hex_digit (of_char c mod 16)]
      else [c])"

definition json_string :: "string \<Rightarrow> string" where
  "json_string s = [CHR 0x22] @ concat (map json_escape s) @ [CHR 0x22]"

definition auth_body_json :: "string \<Rightarrow> string \<Rightarrow> string" where
  \<open>auth_body_json username password =
     ''{"auth": {"username": '' @ json_string username @ '', "password": '' @ json_string password @ ''}}''\<close>

text \<open>
  Reading a JSON string from a text that starts behind the opening quotation mark: the
  decoded string and the text behind the closing quotation mark. (\<open>None\<close> for a text that
  is no JSON string, and for the escape \<open>\u\<close>, which this reader leaves out.)
\<close>

fun read_string :: "string \<Rightarrow> (string \<times> string) option" where
  "read_string [] = None"
| "read_string [c] = (if c = CHR 0x22 then Some ([], []) else None)"
| "read_string (c # d # cs) =
     (if c = CHR 0x22 then Some ([], d # cs)
      else if c = CHR 0x5C then
        (case (if d = CHR 0x22 \<or> d = CHR 0x5C \<or> d = CHR ''/'' then Some d
               else if d = CHR ''n'' then Some (CHR 0x0A)
               else if d = CHR ''r'' then Some (CHR 0x0D)
               else if d = CHR ''t'' then Some (CHR 0x09)
               else if d = CHR ''b'' then Some (CHR 0x08)
               else if d = CHR ''f'' then Some (CHR 0x0C)
               else None) of
           None \<Rightarrow> None
         | Some x \<Rightarrow> (case read_string cs of None \<Rightarrow> None | Some (s, rest) \<Rightarrow> Some (x # s, rest)))
      else if (of_char c :: nat) < 32 then None
      else (case read_string (d # cs) of None \<Rightarrow> None | Some (s, rest) \<Rightarrow> Some (c # s, rest)))"

text \<open>
  What a status GET returns: the \<open>execution_status\<close> of the decoded body, when the call
  and \<open>raise_for_status()\<close> raise nothing, the body is JSON and \<open>.get\<close> applies to it.
\<close>

definition execution_status :: "reply \<Rightarrow> json option" where
  "execution_status rep =
     (case rep of
        Raise x \<Rightarrow> None
      | Response resp \<Rightarrow>
          (case status_error resp of
             Some x \<Rightarrow> None
           | None \<Rightarrow>
               (case json_body resp of
                  Inl x \<Rightarrow> None
                | Inr j \<Rightarrow> (case py_get j ''execution_status'' of Inl x \<Rightarrow> None | Inr st \<Rightarrow> Some st))))"

text \<open>The GET returns the execution status \<open>s\<close>.\<close>

definition reports :: "string \<Rightarrow> reply \<Rightarrow> bool" where
  "reports s rep = (case execution_status rep of None \<Rightarrow> False | Some st \<Rightarrow> py_eq_str st s)"

text \<open>The GET succeeds and returns a status that is neither "ready" nor "error".\<close>

definition pending :: "reply \<Rightarrow> bool" where
  "pending rep =
     (case execution_status rep of
        None \<Rightarrow> False
      | Some st \<Rightarrow> \<not> py_eq_str st ''ready'' \<and> \<not> py_eq_str st ''error'')"


definition timed_out_message :: event where
  "timed_out_message = Ui UiError [S ''Report generation timed out. Please try again later.'']"


definition pending_reply :: reply where
  "pending_reply = replied (JObj [(''execution_status'', JStr ''pending'')])"

text \<open>What the loop emits when a status GET returns "error".\<close>

definition errored_exit :: "json \<Rightarrow> event list" where
  "errored_exit status_data =
     [Ui UiError [S ''An error occurred while generating the report.''],
      Log ERROR [S ''Report generation error: '', V status_data]]"

text \<open>What the geo loop shows for an item whose profile lookup gave nothing.\<close>

definition profile_not_found :: "json \<Rightarrow> event" where
  "profile_not_found line_item_id =
     Ui UiError [S ''Profile ID not found for Line Item ID: '', V line_item_id]"

text \<open>The world after the geo loop has handled an item whose profile lookup gave nothing.\<close>

definition after_lookup_failure :: "env \<Rightarrow> string \<Rightarrow> json \<Rightarrow> world \<Rightarrow> world" where
  "after_lookup_failure e token line_item_id w =
     snd (get_profile_id_for_line_item e token line_item_id w) @ [profile_not_found line_item_id]"

text \<open>What the geo loop shows for an item once its update has returned.\<close>

definition item_outcome :: "json \<Rightarrow> bool \<Rightarrow> event" where
  "item_outcome line_item_id success =
     (if success
      then Ui UiSuccess [S ''Geo targeting updated for Line Item ID: '', V line_item_id]
      else Ui UiError [S ''Failed to update geo targeting for Line Item ID: '', V line_item_id])"

text \<open>
  The per-item reports of the geo loop among the events: the line item id, and whether
  the item was reported as updated.
\<close>

definition item_report :: "event \<Rightarrow> (json \<times> bool) list" where
  "item_report ev =
     (case ev of
        Ui UiError [S t, V i] \<Rightarrow>
          if t = ''Profile ID not found for Line Item ID: ''
             \<or> t = ''Failed to update geo targeting for Line Item ID: '' then [(i, False)] else []
      | Ui UiSuccess [S t, V i] \<Rightarrow>
          if t = ''Geo targeting updated for Line Item ID: '' then [(i, True)] else []
      | _ \<Rightarrow> [])"

definition item_reports :: "world \<Rightarrow> (json \<times> bool) list" where
  "item_reports w = concat (map item_report w)"

definition profile_reply :: "int \<Rightarrow> reply" where
  "profile_reply profile_id =
     replied (JObj [(''response'', JObj [(''line-item'', JObj [(''profile_id'', JInt profile_id)])])])"

text \<open>A reply of \<open>GET /line-item\<close> whose line item has no \<open>profile_id\<close> key.\<close>

definition line_item_without_profile :: reply where
  "line_item_without_profile =
     replied (JObj [(''response'', JObj [(''line-item'', JObj [(''id'', JInt 111)])])])"








definition city :: "int \<Rightarrow> string \<Rightarrow> string \<Rightarrow> json" where
  "city i n c = JObj [(''id'', JInt i), (''name'', JStr n), (''country_name'', JStr c)]"


text \<open>The log records and the messages on the page among the events of a run.\<close>

fun is_shown :: "event \<Rightarrow> bool" where
  "is_shown (Log l t) = True"
| "is_shown (Ui k t) = True"
| "is_shown _ = False"

definition shown :: "world \<Rightarrow> event list" where
  "shown w = filter is_shown w"

text \<open>A token that \<open>requests\<close> and \<open>http.client\<close> accept as the value of a header.\<close>

definition accepted :: "string \<Rightarrow> bool" where
  "accepted token = (headers_error (auth token) = None)"

text \<open>Requests that differ in the two tokens alone get the same replies.\<close>

definition same_replies :: "env \<Rightarrow> string \<Rightarrow> string \<Rightarrow> bool" where
  "same_replies e t t' =
     (\<forall>n r. net e n (r\<lparr>headers := auth t\<rparr>) = net e n (r\<lparr>headers := auth t'\<rparr>))"

text \<open>
  What a call gives depends on the token by the check of the header value alone: any two
  accepted tokens get the same replies.
\<close>

definition token_blind :: "env \<Rightarrow> bool" where
  "token_blind e = (\<forall>t t'. accepted t \<and> accepted t' \<longrightarrow> same_replies e t t')"

text \<open>A server whose replies do not depend on the headers of the request.\<close>

definition ignores_headers :: "env \<Rightarrow> bool" where
  "ignores_headers e = (\<forall>n r h. net e n (r\<lparr>headers := h\<rparr>) = net e n r)"

text \<open>
  Two worlds look the same to the program and to the operator: as many HTTP calls made,
  and the same log records and messages.
\<close>

definition same_view :: "world \<Rightarrow> world \<Rightarrow> bool" where
  "same_view w w' = (n_calls w = n_calls w' \<and> shown w = shown w')"

definition agree :: "'a \<times> world \<Rightarrow> 'a \<times> world \<Rightarrow> bool" where
  "agree p q = (fst p = fst q \<and> same_view (snd p) (snd q))"

text \<open>
  A log record or message holds the text \<open>s\<close> in one of its literal pieces.
\<close>

fun piece_holds :: "string \<Rightarrow> frag \<Rightarrow> bool" where
  "piece_holds s (S t) = is_substring s t"
| "piece_holds s (V j) = False"

fun event_holds :: "string \<Rightarrow> event \<Rightarrow> bool" where
  "event_holds s (Log l t) = list_ex (piece_holds s) t"
| "event_holds s (Ui k t) = list_ex (piece_holds s) t"
| "event_holds s _ = False"

text \<open>A reply with status 401 whose body repeats the token it was sent.\<close>

definition echoing_error :: "string \<Rightarrow> reply" where
  "echoing_error token =
     Raise (Exn RequestException ''401 Client Error: Unauthorized''
              (Some (''invalid token '' @ token)))"

section \<open>Basic facts about traces\<close>

lemma put_payloads_append: "put_payloads (a @ b) = put_payloads a @ put_payloads b"
  by (simp add: put_payloads_def)

lemma put_payloads_simps:
  "put_payloads [] = []"
  "put_payloads (Log l t # w) = put_payloads w"
  "put_payloads (Ui u t # w) = put_payloads w"
  "put_payloads (Sleep n # w) = put_payloads w"
  "put_payloads (Http r rep # w) = (if http_method r = ''PUT'' then [payload r] else []) @ put_payloads w"
  by (simp_all add: put_payloads_def)

lemma n_calls_simps:
  "n_calls (w @ [Log l t]) = n_calls w"
  "n_calls (w @ [Ui u t]) = n_calls w"
  "n_calls (w @ [Sleep n]) = n_calls w"
  "n_calls (w @ [Http r rep]) = Suc (n_calls w)"
  by (simp_all add: n_calls_def)

lemma n_calls_append: "n_calls (a @ b) = n_calls a + n_calls b"
  by (simp add: n_calls_def)

lemma n_calls_Nil: "n_calls [] = 0"
  by (simp add: n_calls_def)

lemma n_calls_Cons: "n_calls (ev # w) = (if is_http ev then 1 else 0) + n_calls w"
  by (simp add: n_calls_def)

lemmas trace_simps =
  put_payloads_append put_payloads_simps n_calls_simps n_calls_append n_calls_Nil n_calls_Cons

section \<open>The pixel upsert\<close>

lemma map_of_dict_set: "map_of (dict_set k x kvs) k' = (if k' = k then Some x else map_of kvs k')"
  by (induction kvs) auto


lemma setitem_get_other:
  "py_setitem p k x = Inr p' \<Longrightarrow> k' \<noteq> k \<Longrightarrow> py_get p' k' = py_get p k'"
  by (cases p) (auto simp: py_get_def map_of_dict_set)


lemma setitem_has_id:
  "py_setitem p ''state'' x = Inr p' \<Longrightarrow> has_id n p' = has_id n p"
  by (simp add: has_id_def setitem_get_other)


lemma activate_first_None:
  "activate_first pid ps = Inr None \<Longrightarrow> count_id pid ps = 0"
  by (induction ps) (auto simp: count_id_def has_id_def split: sum.splits if_splits option.splits)

lemma activate_first_Some:
  "activate_first pid ps = Inr (Some qs) \<Longrightarrow>
     \<exists>i p'. i < length ps \<and> has_id pid (ps ! i) \<and> (\<forall>j<i. \<not> has_id pid (ps ! j))
        \<and> py_setitem (ps ! i) ''state'' (JStr ''active'') = Inr p' \<and> qs = ps[i := p']"
proof (induction ps arbitrary: qs)
  case Nil
  then show ?case by simp
next
  case (Cons p ps)
  show ?case
  proof (cases "has_id pid p")
    case True
    with Cons.prems obtain p' where "py_setitem p ''state'' (JStr ''active'') = Inr p'" "qs = p' # ps"
      by (auto simp: has_id_def split: sum.splits if_splits)
    with True show ?thesis by (intro exI[of _ 0] exI[of _ p']) simp
  next
    case False
    with Cons.prems obtain qs' where a: "activate_first pid ps = Inr (Some qs')" and q: "qs = p # qs'"
      by (auto simp: has_id_def split: sum.splits if_splits option.splits)
    from Cons.IH[OF a] obtain i p' where
      "i < length ps" "has_id pid (ps ! i)" "\<forall>j<i. \<not> has_id pid (ps ! j)"
      "py_setitem (ps ! i) ''state'' (JStr ''active'') = Inr p'" "qs' = ps[i := p']" by blast
    with False q show ?thesis
      by (intro exI[of _ "Suc i"] exI[of _ p']) (auto simp: less_Suc_eq_0_disj)
  qed
qed


lemma has_id_new_pixel: "has_id n (new_pixel pid) = (pid = n)"
  by (simp add: has_id_def new_pixel_def py_get_def)



lemma activate_first_strs:
  "activate_first pid (map (\<lambda>x. JStr (f x)) xs) = Inr r \<Longrightarrow> xs = [] \<and> r = None"
  by (cases xs) (auto simp: py_get_def)

lemma upsert_only_lists:
  "upsert_pixel pid existing = Inr out \<Longrightarrow> \<exists>ps qs. existing = JArr ps \<and> out = JArr qs"
  by (cases existing)
     (auto split: sum.splits option.splits dest!: activate_first_strs)





text \<open>
  C7. The line item is fetched with the pixel array \<open>[{id: 5, state: "inactive"}]\<close>.
  With pixel id 5 requested, the one PUT of the run carries \<open>[{id: 5, state: "active"}]\<close>;
  with pixel id 9 requested, it carries the fetched entry followed by
  \<open>{id: 9, state: "active"}\<close>.
\<close>

theorem pixel_upsert_scenario:
  "put_payloads (snd (update_conversion_pixel
       (scripted [line_item_reply (JArr [pixel 5 ''inactive'']), ok_reply] ok_reply)
       ''token'' 7 (JInt 111) 5 []))
     = [JsonBody (JObj [(''line-item'',
          JObj [(''id'', JInt 111), (''pixels'', JArr [pixel 5 ''active''])])])]
   \<and> put_payloads (snd (update_conversion_pixel
       (scripted [line_item_reply (JArr [pixel 5 ''inactive'']), ok_reply] ok_reply)
       ''token'' 7 (JInt 111) 9 []))
     = [JsonBody (JObj [(''line-item'',
          JObj [(''id'', JInt 111),
                (''pixels'', JArr [pixel 5 ''inactive'', pixel 9 ''active''])])])]"
  by code_simp

lemma filter_list_update_out:
  "i < length xs \<Longrightarrow> \<not> P (xs ! i) \<Longrightarrow> \<not> P y \<Longrightarrow> filter P (xs[i := y]) = filter P xs"
  by (induction xs arbitrary: i) (auto simp: nth_Cons split: nat.splits)

lemma upsert_pixel_shape:
  assumes "upsert_pixel pid existing = Inr out"
  shows "\<exists>ps qs. existing = JArr ps \<and> out = JArr qs
     \<and> ((count_id pid ps = 0 \<and> qs = ps @ [new_pixel pid])
        \<or> (\<exists>i p'. i < length ps \<and> has_id pid (ps ! i)
              \<and> py_setitem (ps ! i) ''state'' (JStr ''active'') = Inr p' \<and> qs = ps[i := p']))"
proof -
  from upsert_only_lists[OF assms] obtain ps qs where e: "existing = JArr ps" and o: "out = JArr qs"
    by blast
  show ?thesis
  proof (cases "activate_first pid ps")
    case (Inl x)
    with assms e show ?thesis by simp
  next
    case (Inr r)
    show ?thesis
    proof (cases r)
      case None
      with Inr assms e o activate_first_None[of pid ps] show ?thesis by simp
    next
      case (Some qs')
      with Inr assms e o have "activate_first pid ps = Inr (Some qs)" by simp
      from activate_first_Some[OF this] e o show ?thesis by blast
    qed
  qed
qed

lemma upsert_pixel_frame:
  assumes "upsert_pixel pid (JArr ps) = Inr (JArr qs)"
  shows "filter (\<lambda>p. \<not> has_id pid p) qs = filter (\<lambda>p. \<not> has_id pid p) ps"
    and "\<forall>i<length ps. \<not> has_id pid (ps ! i) \<longrightarrow> qs ! i = ps ! i"
    and "length qs = length ps \<or> qs = ps @ [new_pixel pid]"
    and "\<exists>k. \<forall>i<length ps. i \<noteq> k \<longrightarrow> qs ! i = ps ! i"
    and "\<forall>i<length ps. \<forall>key. key \<noteq> ''state'' \<longrightarrow> py_get (qs ! i) key = py_get (ps ! i) key"
proof -
  from upsert_pixel_shape[OF assms] consider
      (app) "count_id pid ps = 0" "qs = ps @ [new_pixel pid]"
    | (upd) i p' where "i < length ps" "has_id pid (ps ! i)"
        "py_setitem (ps ! i) ''state'' (JStr ''active'') = Inr p'" "qs = ps[i := p']"
    by auto
  note cases = this
  show "filter (\<lambda>p. \<not> has_id pid p) qs = filter (\<lambda>p. \<not> has_id pid p) ps"
  proof (cases rule: cases)
    case app then show ?thesis by (simp add: has_id_new_pixel)
  next
    case upd
    then show ?thesis by (simp add: filter_list_update_out setitem_has_id)
  qed
  show "\<forall>i<length ps. \<not> has_id pid (ps ! i) \<longrightarrow> qs ! i = ps ! i"
  proof (cases rule: cases)
    case app then show ?thesis by (simp add: nth_append)
  next
    case upd then show ?thesis by (auto simp: nth_list_update)
  qed
  show "length qs = length ps \<or> qs = ps @ [new_pixel pid]"
    by (cases rule: cases) auto
  show "\<exists>k. \<forall>i<length ps. i \<noteq> k \<longrightarrow> qs ! i = ps ! i"
  proof (cases rule: cases)
    case app then show ?thesis by (simp add: nth_append)
  next
    case upd then show ?thesis by (intro exI[of _ i]) (simp add: nth_list_update)
  qed
  show "\<forall>i<length ps. \<forall>key. key \<noteq> ''state'' \<longrightarrow> py_get (qs ! i) key = py_get (ps ! i) key"
  proof (cases rule: cases)
    case app then show ?thesis by (simp add: nth_append)
  next
    case upd then show ?thesis by (auto simp: nth_list_update setitem_get_other)
  qed
qed

lemma put_pixels_payloads:
  "put_pixels e token u li pixels w = (res, w') \<Longrightarrow>
   \<exists>es. w' = w @ es \<and> put_payloads es = [JsonBody (JObj [(''line-item'', JObj [(''id'', li), (''pixels'', pixels)])])]"
  by (auto simp: put_pixels_def send_checked_def send_def pixel_failed_def Let_def
             put_payloads_append put_payloads_simps
           split: prod.splits sum.splits reply.splits option.splits if_splits)

lemma upsert_and_put_payloads:
  "upsert_and_put e token u li pid j w = (res, w') \<Longrightarrow>
   \<exists>es. w' = w @ es \<and>
     (put_payloads es = [] \<or>
      (\<exists>existing pixels. existing_pixels_of j = Inr (Some existing) \<and> upsert_pixel pid existing = Inr pixels
         \<and> put_payloads es = [JsonBody (JObj [(''line-item'', JObj [(''id'', li), (''pixels'', pixels)])])]))"
  unfolding upsert_and_put_def Let_def
  by (auto simp: pixel_failed_def put_payloads_append put_payloads_simps
           split: sum.splits option.splits if_splits dest!: put_pixels_payloads)

lemma puts_follow_fetch_join:
  "puts_follow_fetch token u li pid es1 \<Longrightarrow> puts_follow_fetch token u li pid es2 \<Longrightarrow>
   puts_follow_fetch token u li pid (es1 @ Sleep n # es2)"
  unfolding puts_follow_fetch_def
  by (auto simp: put_payloads_append put_payloads_simps; blast)

lemma retry_from_events:
  "(\<And>w res w'. f w = (res, w') \<Longrightarrow> \<exists>es. w' = w @ es \<and> Q es) \<Longrightarrow>
   (\<And>es1 n es2. Q es1 \<Longrightarrow> Q es2 \<Longrightarrow> Q (es1 @ Sleep n # es2)) \<Longrightarrow>
   retry_from k f w = (res, w') \<Longrightarrow> \<exists>es. w' = w @ es \<and> Q es"
proof (induction k f w arbitrary: res w' rule: retry_from.induct)
  case (1 k f w)
  note step = "1.prems"(1) and join = "1.prems"(2) and run = "1.prems"(3)
  obtain r w1 where fw: "f w = (r, w1)" by (cases "f w")
  from step[OF fw] obtain es1 where w1: "w1 = w @ es1" and q1: "Q es1" by blast
  show ?case
  proof (cases r)
    case (Inr v)
    with run fw have "w' = w1" by (simp add: retry_from.simps[of k f w])
    with w1 q1 show ?thesis by blast
  next
    case (Inl x)
    show ?thesis
    proof (cases "k \<ge> 3")
      case True
      with run fw Inl have "w' = w1" by (simp add: retry_from.simps[of k f w])
      with w1 q1 show ?thesis by blast
    next
      case False
      with run fw Inl
      have r: "retry_from (k + 1) f (w1 @ [Sleep (wait_exponential k)]) = (res, w')"
        by (simp add: retry_from.simps[of k f w])
      from Inl have fw': "(Inl x, w1) = f w" using fw by simp
      have "\<exists>es. w' = (w1 @ [Sleep (wait_exponential k)]) @ es \<and> Q es"
        using "1.IH" fw' False step join r by blast
      then obtain es2 where "w' = (w1 @ [Sleep (wait_exponential k)]) @ es2" "Q es2" by auto
      with w1 q1 join[of es1 es2 "wait_exponential k"] show ?thesis by auto
    qed
  qed
qed

lemma body_puts_follow_fetch:
  assumes "update_conversion_pixel_body e token adv li pid w = (res, w')"
  shows "\<exists>es. w' = w @ es \<and> puts_follow_fetch token (line_item_url li adv) li pid es"
proof -
  let ?u = "line_item_url li adv"
  let ?w0 = "w @ [Log INFO (S ''GET Request URL: '' # ?u)]"
  obtain r w1 where sc: "send_checked e (get_request token ?u) ?w0 = (r, w1)"
    by (cases "send_checked e (get_request token ?u) ?w0")
  show ?thesis
  proof (cases r)
    case (Inl x)
    with assms sc show ?thesis
      by (auto simp: update_conversion_pixel_body_def Let_def send_checked_def send_def
            pixel_failed_def puts_follow_fetch_def get_request_def
            put_payloads_append put_payloads_simps n_calls_simps
          split: reply.splits option.splits if_splits)
  next
    case (Inr resp)
    with sc have w1: "w1 = ?w0 @ [Http (get_request token ?u) (Response resp)]"
      and ok: "status_error resp = None"
      by (auto simp: send_checked_def send_def Let_def split: reply.splits option.splits)
    show ?thesis
    proof (cases "json_body resp")
      case (Inl x)
      with assms sc Inr w1 show ?thesis
        by (auto simp: update_conversion_pixel_body_def Let_def pixel_failed_def
              puts_follow_fetch_def get_request_def put_payloads_append put_payloads_simps
            split: if_splits option.splits)
    next
      case jb: (Inr j)
      let ?w2 = "w1 @ [Log INFO [S ''GET Response for Line Item ID '', V li, S '': '', V j]]"
      from assms sc Inr jb have "upsert_and_put e token ?u li pid j ?w2 = (res, w')"
        by (simp add: update_conversion_pixel_body_def Let_def)
      from upsert_and_put_payloads[OF this] obtain es where
        w': "w' = ?w2 @ es" and
        p: "put_payloads es = [] \<or>
            (\<exists>existing pixels. existing_pixels_of j = Inr (Some existing)
               \<and> upsert_pixel pid existing = Inr pixels
               \<and> put_payloads es = [JsonBody (JObj [(''line-item'', JObj [(''id'', li), (''pixels'', pixels)])])])"
        by blast
      have "puts_follow_fetch token ?u li pid
              (Log INFO (S ''GET Request URL: '' # ?u) # Http (get_request token ?u) (Response resp)
               # Log INFO [S ''GET Response for Line Item ID '', V li, S '': '', V j] # es)"
        using p ok jb unfolding puts_follow_fetch_def put_body_def
        by (auto simp: get_request_def put_payloads_append put_payloads_simps)
      with w' w1 show ?thesis by simp
    qed
  qed
qed

lemma update_puts_follow_fetch:
  assumes "update_conversion_pixel e token adv li pid w = (res, w')"
  shows "\<exists>es. w' = w @ es \<and> puts_follow_fetch token (line_item_url li adv) li pid es"
proof -
  from assms have r: "retry_from 1 (update_conversion_pixel_body e token adv li pid) w = (res, w')"
    by (simp add: update_conversion_pixel_def retry_def)
  show ?thesis
    by (rule retry_from_events[OF body_puts_follow_fetch puts_follow_fetch_join r])
qed

text \<open>
  C10. A run of \<open>update_conversion_pixel\<close> (all its attempts) is given. Every PUT body of
  the run holds the line item id and a pixel array \<open>qs\<close> made from an array \<open>ps\<close> that a
  GET of the run fetched, such that: the entries whose id differs from the requested one
  are the same in \<open>ps\<close> and \<open>qs\<close>, in the same order, and each stays at its index; at most
  one index of \<open>ps\<close> holds a changed entry; a changed entry differs in its state only; and
  \<open>qs\<close> is as long as \<open>ps\<close> or is \<open>ps\<close> with the new entry at the end.
\<close>

theorem pixel_update_frame:
  assumes run: "update_conversion_pixel e token advertiser_id line_item_id pixel_id w = (res, w')"
    and put: "b \<in> set (put_payloads (drop (length w) w'))"
  shows "\<exists>resp j ps qs.
      Http (get_request token (line_item_url line_item_id advertiser_id)) (Response resp)
         \<in> set (drop (length w) w')
    \<and> json_body resp = Inr j
    \<and> existing_pixels_of j = Inr (Some (JArr ps))
    \<and> b = JsonBody (JObj [(''line-item'', JObj [(''id'', line_item_id), (''pixels'', JArr qs)])])
    \<and> filter (\<lambda>p. \<not> has_id pixel_id p) qs = filter (\<lambda>p. \<not> has_id pixel_id p) ps
    \<and> (\<forall>i<length ps. \<not> has_id pixel_id (ps ! i) \<longrightarrow> qs ! i = ps ! i)
    \<and> (\<exists>k. \<forall>i<length ps. i \<noteq> k \<longrightarrow> qs ! i = ps ! i)
    \<and> (\<forall>i<length ps. \<forall>key. key \<noteq> ''state'' \<longrightarrow> py_get (qs ! i) key = py_get (ps ! i) key)
    \<and> (length qs = length ps \<or> qs = ps @ [new_pixel pixel_id])"
proof -
  from update_puts_follow_fetch[OF run] obtain es where
    w': "w' = w @ es" and f: "puts_follow_fetch token (line_item_url line_item_id advertiser_id) line_item_id pixel_id es"
    by blast
  from put w' have "b \<in> set (put_payloads es)" by simp
  with f obtain resp j existing pixels where
    g: "Http (get_request token (line_item_url line_item_id advertiser_id)) (Response resp) \<in> set es"
    and jb: "json_body resp = Inr j"
    and ex: "existing_pixels_of j = Inr (Some existing)"
    and up: "upsert_pixel pixel_id existing = Inr pixels"
    and b: "b = put_body line_item_id pixels"
    unfolding puts_follow_fetch_def by blast
  from upsert_only_lists[OF up] obtain ps qs where e: "existing = JArr ps" and o: "pixels = JArr qs"
    by blast
  from up e o have up': "upsert_pixel pixel_id (JArr ps) = Inr (JArr qs)" by simp
  note fr = upsert_pixel_frame[OF up']
  from g w' have g': "Http (get_request token (line_item_url line_item_id advertiser_id)) (Response resp)
         \<in> set (drop (length w) w')" by simp
  from g' jb ex e b o fr show ?thesis unfolding put_body_def by blast
qed

theorem pixel_update_frame_witness:
  "\<exists>resp j ps qs.
      Http (get_request ''token'' (line_item_url (JInt 111) 7)) (Response resp)
         \<in> set (drop (length ([]::world))
              (snd (update_conversion_pixel
                 (scripted [line_item_reply (JArr [pixel 5 ''inactive'', pixel 9 ''inactive'']), ok_reply] ok_reply)
                 ''token'' 7 (JInt 111) 9 [])))
    \<and> json_body resp = Inr j
    \<and> existing_pixels_of j = Inr (Some (JArr ps))
    \<and> JsonBody (JObj [(''line-item'', JObj [(''id'', JInt 111),
          (''pixels'', JArr [pixel 5 ''inactive'', pixel 9 ''active''])])])
       = JsonBody (JObj [(''line-item'', JObj [(''id'', JInt 111), (''pixels'', JArr qs)])])
    \<and> filter (\<lambda>p. \<not> has_id 9 p) qs = filter (\<lambda>p. \<not> has_id 9 p) ps
    \<and> (\<forall>i<length ps. \<not> has_id 9 (ps ! i) \<longrightarrow> qs ! i = ps ! i)
    \<and> (\<exists>k. \<forall>i<length ps. i \<noteq> k \<longrightarrow> qs ! i = ps ! i)
    \<and> (\<forall>i<length ps. \<forall>key. key \<noteq> ''state'' \<longrightarrow> py_get (qs ! i) key = py_get (ps ! i) key)
    \<and> (length qs = length ps \<or> qs = ps @ [new_pixel 9])"
proof -
  let ?run = "update_conversion_pixel
                 (scripted [line_item_reply (JArr [pixel 5 ''inactive'', pixel 9 ''inactive'']), ok_reply] ok_reply)
                 ''token'' 7 (JInt 111) 9 []"
  have m: "JsonBody (JObj [(''line-item'', JObj [(''id'', JInt 111),
              (''pixels'', JArr [pixel 5 ''inactive'', pixel 9 ''active''])])])
           \<in> set (put_payloads (drop (length ([]::world)) (snd ?run)))"
    by code_simp
  show ?thesis using pixel_update_frame[OF prod.collapse[symmetric] m] .
qed

section \<open>The retry decorator on the two mutating calls\<close>

lemma geo_transport_error_not_retried:
  assumes "net e (n_calls w) (geo_put_request token profile_id city_targets) = Raise x"
    and "cls x = RequestException"
  shows "update_line_item_profile_geo e token profile_id city_targets w
         = (Inr False,
            w @ [Http (geo_put_request token profile_id city_targets) (Raise x),
                 Ui UiError [S ''Error updating geo targeting for profile ID '', V profile_id,
                             S '': '', S (message x)],
                 Log ERROR [S ''Error updating geo targeting for profile ID '', V profile_id,
                            S '': '', S (message x)]])"
  using assms
  by (simp add: update_line_item_profile_geo_def retry_def retry_from.simps[of "Suc 0"]
        update_line_item_profile_geo_body_def send_checked_def send_def geo_failed_def Let_def)

text \<open>
  C1. The PUT of the geo update is answered by two transport failures and then a success.
  The decorated function returns \<open>False\<close> after one HTTP call: its body catches the
  \<open>RequestException\<close> and returns, so the decorator, which repeats a call only when it
  raises, never sees a failure. The pixel update does the same when its GET fails, and
  with three failures in a row each function still makes one call.
\<close>

theorem transport_failure_is_never_retried:
  "(let run = update_line_item_profile_geo
                (scripted [transport_error, transport_error, ok_reply] ok_reply)
                ''token'' (JInt 42) cities []
    in fst run = Inr False \<and> n_calls (snd run) = 1)
   \<and> (let run = update_conversion_pixel
                (scripted [transport_error, transport_error, line_item_reply (JArr []), ok_reply] ok_reply)
                ''token'' 7 (JInt 111) 5 []
      in fst run = Inr False \<and> n_calls (snd run) = 1)
   \<and> (let run = update_line_item_profile_geo
                (scripted [transport_error, transport_error, transport_error] ok_reply)
                ''token'' (JInt 42) cities []
      in fst run = Inr False \<and> n_calls (snd run) = 1)"
  by code_simp

section \<open>The body of the authentication request\<close>

lemma json_escape_plain:
  "c \<noteq> CHR 0x22 \<Longrightarrow> c \<noteq> CHR 0x5C \<Longrightarrow> 32 \<le> (of_char c :: nat) \<Longrightarrow> json_escape c = [c]"
  by (auto simp: json_escape_def)

lemma json_string_plain:
  "\<forall>c\<in>set s. c \<noteq> CHR 0x22 \<and> c \<noteq> CHR 0x5C \<and> 32 \<le> (of_char c :: nat) \<Longrightarrow>
   json_string s = [CHR 0x22] @ s @ [CHR 0x22]"
  by (induction s) (auto simp: json_string_def json_escape_plain)

lemma credentials_plain:
  assumes "\<forall>c\<in>set username. c \<noteq> CHR 0x22 \<and> c \<noteq> CHR 0x5C \<and> 32 \<le> (of_char c :: nat)"
    and "\<forall>c\<in>set password. c \<noteq> CHR 0x22 \<and> c \<noteq> CHR 0x5C \<and> 32 \<le> (of_char c :: nat)"
  shows "credentials username password = auth_body_json username password"
  using assms by (simp add: credentials_def auth_body_json_def json_string_plain)

text \<open>
  C9. For the username \<open>a"b\<close> the body that \<open>authenticate\<close> sends is not the JSON text of
  the credentials: the string read at the username's place is \<open>a\<close>, and a \<open>b\<close> follows it
  where JSON allows a comma or a brace. For the username \<open>a\b\<close> the string read there is
  \<open>a\<close> and a backspace. For a username with a line feed no JSON string stands there.
\<close>

theorem credentials_are_not_escaped:
  \<open>credentials [CHR ''a'', CHR 0x22, CHR ''b''] ''pw''
     = ''{"auth": {"username": "a"b", "password": "pw"}}''
   \<and> credentials [CHR ''a'', CHR 0x22, CHR ''b''] ''pw''
     \<noteq> auth_body_json [CHR ''a'', CHR 0x22, CHR ''b''] ''pw''
   \<and> read_string (drop 23 (credentials [CHR ''a'', CHR 0x22, CHR ''b''] ''pw''))
     = Some (''a'', ''b", "password": "pw"}}'')
   \<and> read_string (drop 23 (auth_body_json [CHR ''a'', CHR 0x22, CHR ''b''] ''pw''))
     = Some ([CHR ''a'', CHR 0x22, CHR ''b''], '', "password": "pw"}}'')
   \<and> read_string (drop 23 (credentials [CHR ''a'', CHR 0x5C, CHR ''b''] ''pw''))
     = Some ([CHR ''a'', CHR 0x08], '', "password": "pw"}}'')
   \<and> read_string (drop 23 (credentials [CHR ''a'', CHR 0x0A, CHR ''b''] ''pw'')) = None\<close>
  by code_simp

section \<open>The polling loop\<close>






lemma reports_not_pending: "reports ''error'' rep \<Longrightarrow> \<not> pending rep"
  by (auto simp: reports_def pending_def split: option.splits)

lemma reports_ready_not_error: "reports ''ready'' rep \<Longrightarrow> \<not> reports ''error'' rep"
  by (cases "execution_status rep"; cases "the (execution_status rep)")
     (auto simp: reports_def)

text \<open>
  The events of the loop: polls that found the report pending, each with its sleep, and
  then the last poll with what the exit taken emits.
\<close>

lemma poll_status_events:
  "poll_status e token u retries w = (x, w') \<Longrightarrow>
   \<exists>pre tl. w' = w @ pre @ tl
     \<and> (\<forall>ev\<in>set pre. (\<exists>rep. ev = Http (get_request token u) rep \<and> pending rep) \<or> ev = Sleep 5)
     \<and> (case x of
          TimedOut \<Rightarrow> tl = [timed_out_message]
        | Ready \<Rightarrow> (\<exists>rep. tl = [Http (get_request token u) rep] \<and> reports ''ready'' rep)
        | Errored \<Rightarrow> (\<exists>rep resp j. tl = Http (get_request token u) rep # errored_exit j
                          \<and> rep = Response resp \<and> json_body resp = Inr j \<and> reports ''error'' rep)
        | PollFailed \<Rightarrow> (\<exists>rep y. tl = [Http (get_request token u) rep] @ drop (length w) (poll_failed y w)
                          \<and> execution_status rep = None))"
proof (induction e token u retries w arbitrary: x w' rule: poll_status.induct)
  case (1 e token u retries w)
  let ?req = "get_request token u"
  let ?rep = "net e (n_calls w) ?req"
  let ?w1 = "w @ [Http ?req ?rep]"
  show ?case
  proof (cases "retries < 10")
    case False
    with "1.prems" have "x = TimedOut" "w' = w @ [] @ [timed_out_message]"
      by (auto simp: poll_status.simps[of e token u retries w] timed_out_message_def)
    then show ?thesis by (intro exI[of _ "[]"] exI[of _ "[timed_out_message]"]) simp
  next
    case lt: True
    show ?thesis
    proof (cases "execution_status ?rep")
      case None
      then obtain y where "x = PollFailed" "w' = poll_failed y ?w1"
        using "1.prems" lt
        by (auto simp: poll_status.simps[of e token u retries w] send_checked_def send_def Let_def
              execution_status_def split: reply.splits option.splits sum.splits)
      then have "x = PollFailed"
        "w' = w @ [] @ ([Http ?req ?rep] @ drop (length w) (poll_failed y w))"
        by (auto simp: poll_failed_def)
      with None show ?thesis
        by (intro exI[of _ "[]"] exI[of _ "[Http ?req ?rep] @ drop (length w) (poll_failed y w)"]) auto
    next
      case (Some st)
      then obtain resp j where rep: "?rep = Response resp" and ok: "status_error resp = None"
        and jb: "json_body resp = Inr j" and st: "py_get j ''execution_status'' = Inr st"
        by (auto simp: execution_status_def split: reply.splits option.splits sum.splits)
      have sc: "send_checked e ?req w = (Inr resp, ?w1)"
        using rep ok by (simp add: send_checked_def send_def Let_def)
      consider (ready) "py_eq_str st ''ready''"
        | (error) "\<not> py_eq_str st ''ready''" "py_eq_str st ''error''"
        | (pend) "\<not> py_eq_str st ''ready''" "\<not> py_eq_str st ''error''" by blast
      then show ?thesis
      proof cases
        case ready
        with "1.prems" lt sc jb st have "x = Ready" "w' = w @ [] @ [Http ?req ?rep]"
          by (auto simp: poll_status.simps[of e token u retries w])
        moreover have "reports ''ready'' ?rep" using Some ready by (simp add: reports_def)
        ultimately show ?thesis
          by (intro exI[of _ "[]"] exI[of _ "[Http ?req ?rep]"]) auto
      next
        case error
        with "1.prems" lt sc jb st have "x = Errored" "w' = w @ [] @ (Http ?req ?rep # errored_exit j)"
          by (auto simp: poll_status.simps[of e token u retries w] errored_exit_def)
        moreover have "reports ''error'' ?rep" using Some error by (simp add: reports_def)
        ultimately show ?thesis using rep jb
          by (intro exI[of _ "[]"] exI[of _ "Http ?req ?rep # errored_exit j"]) auto
      next
        case pend
        let ?w2 = "?w1 @ [Sleep 5]"
        from "1.prems" lt sc jb st pend
        have run: "poll_status e token u (retries + 1) ?w2 = (x, w')"
          by (auto simp: poll_status.simps[of e token u retries w])
        have "\<exists>pre tl. w' = ?w2 @ pre @ tl
           \<and> (\<forall>ev\<in>set pre. (\<exists>rep. ev = Http ?req rep \<and> pending rep) \<or> ev = Sleep 5)
           \<and> (case x of
                TimedOut \<Rightarrow> tl = [timed_out_message]
              | Ready \<Rightarrow> (\<exists>rep. tl = [Http ?req rep] \<and> reports ''ready'' rep)
              | Errored \<Rightarrow> (\<exists>rep resp j. tl = Http ?req rep # errored_exit j
                                \<and> rep = Response resp \<and> json_body resp = Inr j \<and> reports ''error'' rep)
              | PollFailed \<Rightarrow> (\<exists>rep y. tl = [Http ?req rep] @ drop (length ?w2) (poll_failed y ?w2)
                                \<and> execution_status rep = None))"
          using "1.IH"[OF lt sc[symmetric] refl jb st pend(1) pend(2) run] .
        then obtain pre tl where w': "w' = ?w2 @ pre @ tl"
          and pre: "\<forall>ev\<in>set pre. (\<exists>rep. ev = Http ?req rep \<and> pending rep) \<or> ev = Sleep 5"
          and tl: "(case x of
                TimedOut \<Rightarrow> tl = [timed_out_message]
              | Ready \<Rightarrow> (\<exists>rep. tl = [Http ?req rep] \<and> reports ''ready'' rep)
              | Errored \<Rightarrow> (\<exists>rep resp j. tl = Http ?req rep # errored_exit j
                                \<and> rep = Response resp \<and> json_body resp = Inr j \<and> reports ''error'' rep)
              | PollFailed \<Rightarrow> (\<exists>rep y. tl = [Http ?req rep] @ drop (length ?w2) (poll_failed y ?w2)
                                \<and> execution_status rep = None))" by blast
        have p: "pending ?rep" using Some pend by (simp add: pending_def)
        have tl': "(case x of
                TimedOut \<Rightarrow> tl = [timed_out_message]
              | Ready \<Rightarrow> (\<exists>rep. tl = [Http ?req rep] \<and> reports ''ready'' rep)
              | Errored \<Rightarrow> (\<exists>rep resp j. tl = Http ?req rep # errored_exit j
                                \<and> rep = Response resp \<and> json_body resp = Inr j \<and> reports ''error'' rep)
              | PollFailed \<Rightarrow> (\<exists>rep y. tl = [Http ?req rep] @ drop (length w) (poll_failed y w)
                                \<and> execution_status rep = None))"
          using tl by (cases x) (auto simp: poll_failed_def)
        show ?thesis
          using w' pre p tl'
          by (intro exI[of _ "Http ?req ?rep # Sleep 5 # pre"] exI[of _ tl]) auto
      qed
    qed
  qed
qed

lemma download_report_events:
  "download_report e token report_id w = (d, w') \<Longrightarrow>
   \<exists>rep es. w' = w @ Http (get_request token (download_url report_id)) rep # es
      \<and> (\<forall>ev\<in>set es. \<not> is_http ev)"
  by (auto simp: download_report_def send_checked_def send_def Let_def
           split: reply.splits option.splits sum.splits prod.splits)

lemma status_request_not_download:
  "get_request token (status_url report_id) \<noteq> get_request token' (download_url report_id')"
  by (simp add: get_request_def status_url_def download_url_def)

text \<open>
  C6. A run of the polling loop and what follows it is given, and one of its status GETs
  returned the execution status "error". Then the run ended at the \<open>return\<close> of the
  "error" branch; before that GET the run made only polls that found the report pending,
  each followed by its sleep; after it the run emitted the error message and the log
  record and nothing else; and no GET of the download URL is among the events of the run.
\<close>

theorem error_status_ends_polling:
  assumes run: "poll_and_download e token report_id w = (x, w')"
    and ev: "Http (get_request token (status_url report_id)) rep \<in> set (drop (length w) w')"
    and err: "reports ''error'' rep"
  shows "x = Polled Errored
    \<and> (\<exists>pre j. w' = w @ pre @ Http (get_request token (status_url report_id)) rep # errored_exit j
          \<and> (\<forall>ev\<in>set pre. (\<exists>rep'. ev = Http (get_request token (status_url report_id)) rep'
                                    \<and> pending rep') \<or> ev = Sleep 5))
    \<and> (\<forall>rep'. Http (get_request token (download_url report_id)) rep' \<notin> set (drop (length w) w'))"
proof -
  let ?req = "get_request token (status_url report_id)"
  obtain px w3 where ps: "poll_status e token (status_url report_id) 0 w = (px, w3)"
    by (cases "poll_status e token (status_url report_id) 0 w")
  from poll_status_events[OF ps] obtain pre tl where
    w3: "w3 = w @ pre @ tl"
    and pre: "\<forall>ev\<in>set pre. (\<exists>rep'. ev = Http ?req rep' \<and> pending rep') \<or> ev = Sleep 5"
    and tl: "(case px of
          TimedOut \<Rightarrow> tl = [timed_out_message]
        | Ready \<Rightarrow> (\<exists>rep. tl = [Http ?req rep] \<and> reports ''ready'' rep)
        | Errored \<Rightarrow> (\<exists>rep resp j. tl = Http ?req rep # errored_exit j
                          \<and> rep = Response resp \<and> json_body resp = Inr j \<and> reports ''error'' rep)
        | PollFailed \<Rightarrow> (\<exists>rep y. tl = [Http ?req rep] @ drop (length w) (poll_failed y w)
                          \<and> execution_status rep = None))"
    by blast
  have notpre: "Http ?req rep \<notin> set pre"
    using pre err reports_not_pending by auto
  show ?thesis
  proof (cases px)
    case Ready
    with tl obtain rep0 where tl0: "tl = [Http ?req rep0]" and r0: "reports ''ready'' rep0" by auto
    obtain d w4 where dl: "download_report e token report_id w3 = (d, w4)"
      by (cases "download_report e token report_id w3")
    from download_report_events[OF dl] obtain rep1 es where
      w4: "w4 = w3 @ Http (get_request token (download_url report_id)) rep1 # es"
      and es: "\<forall>ev\<in>set es. \<not> is_http ev" by blast
    from run ps Ready dl have "w' = w4" by (simp add: poll_and_download_def)
    with ev w4 w3 tl0 notpre es have "rep = rep0"
      by (auto simp: status_request_not_download)
    with r0 err reports_ready_not_error show ?thesis by blast
  next
    case TimedOut
    with run ps have "w' = w3" by (simp add: poll_and_download_def)
    with ev w3 tl TimedOut notpre show ?thesis by (auto simp: timed_out_message_def)
  next
    case PollFailed
    with tl obtain rep0 y where tl0: "tl = [Http ?req rep0] @ drop (length w) (poll_failed y w)"
      and r0: "execution_status rep0 = None" by auto
    from PollFailed run ps have "w' = w3" by (simp add: poll_and_download_def)
    with ev w3 tl0 notpre have "rep = rep0" by (auto simp: poll_failed_def)
    with r0 err show ?thesis by (simp add: reports_def)
  next
    case Errored
    with tl obtain rep0 j where tl0: "tl = Http ?req rep0 # errored_exit j" by auto
    from Errored run ps have x: "x = Polled Errored" and w': "w' = w3" by (auto simp: poll_and_download_def)
    from ev w' w3 tl0 notpre have rr: "rep = rep0" by (auto simp: errored_exit_def)
    have nd: "\<forall>rep'. Http (get_request token (download_url report_id)) rep' \<notin> set (drop (length w) w')"
      using w' w3 tl0 pre status_request_not_download[of token report_id token report_id]
      by (auto simp: errored_exit_def)
    from x w' w3 tl0 rr pre nd show ?thesis by auto
  qed
qed

theorem error_status_ends_polling_witness:
  "(let e = scripted [pending_reply, replied (JObj [(''execution_status'', JStr ''error'')])] pending_reply;
        rep = replied (JObj [(''execution_status'', JStr ''error'')])
    in fst (poll_and_download e ''token'' (JStr ''r1'') []) = Polled Errored
    \<and> (\<exists>pre j. snd (poll_and_download e ''token'' (JStr ''r1'') [])
            = [] @ pre @ Http (get_request ''token'' (status_url (JStr ''r1''))) rep # errored_exit j
          \<and> (\<forall>ev\<in>set pre. (\<exists>rep'. ev = Http (get_request ''token'' (status_url (JStr ''r1''))) rep'
                                    \<and> pending rep') \<or> ev = Sleep 5))
    \<and> (\<forall>rep'. Http (get_request ''token'' (download_url (JStr ''r1''))) rep'
          \<notin> set (drop (length ([]::world)) (snd (poll_and_download e ''token'' (JStr ''r1'') [])))))"
proof -
  let ?e = "scripted [pending_reply, replied (JObj [(''execution_status'', JStr ''error'')])] pending_reply"
  let ?rep = "replied (JObj [(''execution_status'', JStr ''error'')])"
  have ev: "Http (get_request ''token'' (status_url (JStr ''r1''))) ?rep
     \<in> set (drop (length ([]::world)) (snd (poll_and_download ?e ''token'' (JStr ''r1'') [])))"
    by code_simp
  have err: "reports ''error'' ?rep"
    by code_simp
  show ?thesis
    using error_status_ends_polling[OF prod.collapse[symmetric] ev err] by (simp add: Let_def)
qed

section \<open>The geo targeting batch\<close>

lemma item_reports_append [simp]: "item_reports (a @ b) = item_reports a @ item_reports b"
  by (simp add: item_reports_def)

lemma item_reports_Nil [simp]: "item_reports [] = []"
  by (simp add: item_reports_def)

lemma item_reports_Cons: "item_reports (ev # w) = item_report ev @ item_reports w"
  by (simp add: item_reports_def)

text \<open>A lookup makes one GET and reports nothing about an item.\<close>

lemma make_api_request_events:
  "make_api_request e m u h p b w = (r, w') \<Longrightarrow>
   \<exists>es. w' = w @ es \<and> n_calls es = 1 \<and> item_reports es = []
      \<and> put_payloads es = (if m = ''PUT'' then [b] else [])"
  by (auto simp: make_api_request_def api_request_failed_def send_checked_def send_def Let_def
        n_calls_Cons n_calls_Nil put_payloads_simps item_reports_Cons item_report_def
      split: reply.splits option.splits sum.splits prod.splits if_splits)

lemma get_profile_events:
  assumes "get_profile_id_for_line_item e token li w = (r, w')"
  shows "\<exists>es. w' = w @ es \<and> n_calls es = 1 \<and> item_reports es = [] \<and> put_payloads es = []"
proof -
  obtain r1 w1 where m: "make_api_request e ''GET'' [S XANDR_BASE_URL, S ''/line-item?id='', V li]
             (auth token) [] NoBody w = (r1, w1)"
    by (cases "make_api_request e ''GET'' [S XANDR_BASE_URL, S ''/line-item?id='', V li]
             (auth token) [] NoBody w")
  from make_api_request_events[OF m] obtain es where
    w1: "w1 = w @ es" and es: "n_calls es = 1" "item_reports es = []" "put_payloads es = []"
    by auto
  from assms m have "w' = w1 \<or> (\<exists>j. w' = w1 @
        [Ui UiError [S ''Unexpected API response structure for line item ID: '', V li, S ''.''],
         Log ERROR [S ''Unexpected API response: '', V j]])"
    by (auto simp: get_profile_id_for_line_item_def split: sum.splits if_splits bool.splits)
  then show ?thesis
  proof
    assume "w' = w1"
    with w1 es show ?thesis by blast
  next
    assume "\<exists>j. w' = w1 @
        [Ui UiError [S ''Unexpected API response structure for line item ID: '', V li, S ''.''],
         Log ERROR [S ''Unexpected API response: '', V j]]"
    then obtain j where "w' = w @ (es @
        [Ui UiError [S ''Unexpected API response structure for line item ID: '', V li, S ''.''],
         Log ERROR [S ''Unexpected API response: '', V j]])" using w1 by auto
    moreover have "n_calls (es @
        [Ui UiError [S ''Unexpected API response structure for line item ID: '', V li, S ''.''],
         Log ERROR [S ''Unexpected API response: '', V j]]) = 1"
      using es by (simp add: n_calls_append n_calls_Cons n_calls_Nil)
    moreover have "item_reports (es @
        [Ui UiError [S ''Unexpected API response structure for line item ID: '', V li, S ''.''],
         Log ERROR [S ''Unexpected API response: '', V j]]) = []"
      using es by (simp add: item_reports_Cons item_report_def)
    moreover have "put_payloads (es @
        [Ui UiError [S ''Unexpected API response structure for line item ID: '', V li, S ''.''],
         Log ERROR [S ''Unexpected API response: '', V j]]) = []"
      using es by (simp add: put_payloads_append put_payloads_simps)
    ultimately show ?thesis by blast
  qed
qed

lemma geo_put_succeeds:
  assumes "net e (n_calls w) (geo_put_request token p ct) = Response resp"
    and "status_error resp = None"
  shows "update_line_item_profile_geo e token p ct w
         = (Inr True, w @ [Http (geo_put_request token p ct) (Response resp)])"
  using assms
  by (simp add: update_line_item_profile_geo_def retry_def retry_from.simps[of "Suc 0"]
        update_line_item_profile_geo_body_def send_checked_def send_def Let_def)

lemma geo_body_events:
  "update_line_item_profile_geo_body e token p ct w = (r, w') \<Longrightarrow>
   \<exists>es. w' = w @ es \<and> item_reports es = []"
  by (auto simp: update_line_item_profile_geo_body_def geo_failed_def send_checked_def send_def
        Let_def item_reports_Cons item_report_def
      split: reply.splits option.splits sum.splits prod.splits if_splits)

lemma update_geo_events:
  assumes "update_line_item_profile_geo e token p ct w = (r, w')"
  shows "\<exists>es. w' = w @ es \<and> item_reports es = []"
proof -
  have run: "retry_from 1 (update_line_item_profile_geo_body e token p ct) w = (r, w')"
    using assms by (simp add: update_line_item_profile_geo_def retry_def)
  show ?thesis
  proof (rule retry_from_events[where Q = "\<lambda>es. item_reports es = []", OF _ _ run])
    fix w res w'
    assume "update_line_item_profile_geo_body e token p ct w = (res, w')"
    then show "\<exists>es. w' = w @ es \<and> item_reports es = []" by (rule geo_body_events)
  next
    fix es1 :: world and n es2
    assume "item_reports es1 = []" "item_reports es2 = []"
    then show "item_reports (es1 @ Sleep n # es2) = []"
      by (simp add: item_reports_Cons item_report_def)
  qed
qed

lemma item_report_outcome: "item_report (item_outcome i ok) = [(i, ok)]"
  by (simp add: item_outcome_def item_report_def)

lemma item_report_not_found: "item_report (profile_not_found i) = [(i, False)]"
  by (simp add: profile_not_found_def item_report_def)

lemma geo_batch_step_nothing:
  assumes "fst (get_profile_id_for_line_item e token a w) = Inr p" and "\<not> truthy p"
  shows "geo_targeting_batch e token ct (a # rest) w
         = geo_targeting_batch e token ct rest (after_lookup_failure e token a w)"
  using assms
  by (cases "get_profile_id_for_line_item e token a w")
     (simp add: after_lookup_failure_def profile_not_found_def)

lemma geo_batch_step_found:
  assumes "fst (get_profile_id_for_line_item e token a w) = Inr p" and "truthy p"
    and "fst (update_line_item_profile_geo e token p ct
                (snd (get_profile_id_for_line_item e token a w))) = Inr ok"
  shows "geo_targeting_batch e token ct (a # rest) w
         = geo_targeting_batch e token ct rest
             (snd (update_line_item_profile_geo e token p ct
                     (snd (get_profile_id_for_line_item e token a w))) @ [item_outcome a ok])"
proof -
  obtain w1 where g: "get_profile_id_for_line_item e token a w = (Inr p, w1)"
    using assms(1) by (cases "get_profile_id_for_line_item e token a w") auto
  obtain w2 where u: "update_line_item_profile_geo e token p ct w1 = (Inr ok, w2)"
    using assms(3) g by (cases "update_line_item_profile_geo e token p ct w1") auto
  show ?thesis
    using g u assms(2) by (simp add: item_outcome_def)
qed

lemma geo_batch_raises:
  assumes "get_profile_id_for_line_item e token a w = (Inl x, w1)"
  shows "geo_targeting_batch e token ct (a # rest) w = (Inl x, w1)"
  using assms by simp

lemma geo_batch_update_raises:
  assumes "get_profile_id_for_line_item e token a w = (Inr p, w1)" and "truthy p"
    and "update_line_item_profile_geo e token p ct w1 = (Inl x, w2)"
  shows "geo_targeting_batch e token ct (a # rest) w = (Inl x, w2)"
  using assms by simp

lemma batch_reports_every_item:
  "geo_targeting_batch e token ct ids w = (Inr (), w') \<Longrightarrow>
   \<exists>es. w' = w @ es \<and> map fst (item_reports es) = ids"
proof (induction ids arbitrary: w w')
  case Nil
  then show ?case by simp
next
  case (Cons a ids)
  obtain r w1 where g: "get_profile_id_for_line_item e token a w = (r, w1)"
    by (cases "get_profile_id_for_line_item e token a w")
  from get_profile_events[OF g] obtain es1 where
    w1: "w1 = w @ es1" and es1: "item_reports es1 = []" by blast
  have "\<exists>p. r = Inr p"
  proof (cases r)
    case (Inl x)
    with g have "geo_targeting_batch e token ct (a # ids) w = (Inl x, w1)"
      by (simp only: geo_batch_raises)
    with Cons.prems show ?thesis by (simp only: prod.inject sum.distinct simp_thms)
  qed simp
  then obtain p where r: "r = Inr p" ..
  have l: "fst (get_profile_id_for_line_item e token a w) = Inr p"
    by (simp only: g r fst_conv)
  show ?case
  proof (cases "truthy p")
    case False
    have "geo_targeting_batch e token ct (a # ids) w
          = geo_targeting_batch e token ct ids (after_lookup_failure e token a w)"
      by (rule geo_batch_step_nothing[OF l False])
    moreover have "after_lookup_failure e token a w = w1 @ [profile_not_found a]"
      by (simp only: after_lookup_failure_def g snd_conv)
    ultimately
    have "geo_targeting_batch e token ct ids (w1 @ [profile_not_found a]) = (Inr (), w')"
      using Cons.prems by (simp only:)
    from Cons.IH[OF this] obtain es where
      "w' = (w1 @ [profile_not_found a]) @ es" and "map fst (item_reports es) = ids" by blast
    then have "w' = w @ (es1 @ [profile_not_found a] @ es)
        \<and> map fst (item_reports (es1 @ [profile_not_found a] @ es)) = a # ids"
      using w1 es1 by (simp add: item_reports_Cons item_report_not_found)
    then show ?thesis by (rule exI[of _ "es1 @ [profile_not_found a] @ es"])
  next
    case True
    obtain r2 w2 where u: "update_line_item_profile_geo e token p ct w1 = (r2, w2)"
      by (cases "update_line_item_profile_geo e token p ct w1")
    from update_geo_events[OF u] obtain es2 where
      w2: "w2 = w1 @ es2" and es2: "item_reports es2 = []" by blast
    have "\<exists>ok. r2 = Inr ok"
    proof (cases r2)
      case (Inl x)
      with g r True u have "geo_targeting_batch e token ct (a # ids) w = (Inl x, w2)"
        by (simp only: geo_batch_update_raises)
      with Cons.prems show ?thesis by (simp only: prod.inject sum.distinct simp_thms)
    qed simp
    then obtain ok where r2: "r2 = Inr ok" ..
    have s1: "snd (get_profile_id_for_line_item e token a w) = w1"
      by (simp only: g snd_conv)
    have l2: "fst (update_line_item_profile_geo e token p ct
                (snd (get_profile_id_for_line_item e token a w))) = Inr ok"
      by (simp only: s1 u r2 fst_conv)
    have s2: "snd (update_line_item_profile_geo e token p ct
                (snd (get_profile_id_for_line_item e token a w))) = w2"
      by (simp only: s1 u snd_conv)
    have "geo_targeting_batch e token ct (a # ids) w
          = geo_targeting_batch e token ct ids (w2 @ [item_outcome a ok])"
      using geo_batch_step_found[OF l True l2, of ids] by (simp only: s2)
    then have "geo_targeting_batch e token ct ids (w2 @ [item_outcome a ok]) = (Inr (), w')"
      using Cons.prems by (simp only:)
    from Cons.IH[OF this] obtain es where
      "w' = (w2 @ [item_outcome a ok]) @ es" and "map fst (item_reports es) = ids" by blast
    then have "w' = w @ (es1 @ es2 @ [item_outcome a ok] @ es)
        \<and> map fst (item_reports (es1 @ es2 @ [item_outcome a ok] @ es)) = a # ids"
      using w1 w2 es1 es2 by (simp add: item_reports_Cons item_report_outcome)
    then show ?thesis by (rule exI[of _ "es1 @ es2 @ [item_outcome a ok] @ es"])
  qed
qed

lemma geo_batch_scenario:
  assumes l1: "fst (get_profile_id_for_line_item e token a w) = Inr p1" and f1: "\<not> truthy p1"
    and l2: "fst (get_profile_id_for_line_item e token b (after_lookup_failure e token a w)) = Inr p2"
    and t2: "truthy p2"
    and put: "net e (n_calls w + 2) (geo_put_request token p2 city_targets) = Response resp"
    and ok: "status_error resp = None"
  shows "fst (geo_targeting_batch e token city_targets [a, b] w) = Inr ()
    \<and> item_reports (drop (length w) (snd (geo_targeting_batch e token city_targets [a, b] w)))
        = [(a, False), (b, True)]
    \<and> put_payloads (drop (length w) (snd (geo_targeting_batch e token city_targets [a, b] w)))
        = [payload (geo_put_request token p2 city_targets)]
    \<and> n_calls (snd (geo_targeting_batch e token city_targets [a, b] w)) = n_calls w + 3"
proof -
  obtain w1 where g1: "get_profile_id_for_line_item e token a w = (Inr p1, w1)"
    using l1 by (cases "get_profile_id_for_line_item e token a w") auto
  let ?wa = "after_lookup_failure e token a w"
  have wa: "?wa = w1 @ [profile_not_found a]" using g1 by (simp add: after_lookup_failure_def)
  obtain w2 where g2: "get_profile_id_for_line_item e token b ?wa = (Inr p2, w2)"
    using l2 by (cases "get_profile_id_for_line_item e token b ?wa") auto
  from get_profile_events[OF g1] obtain es1 where
    w1: "w1 = w @ es1" and es1: "n_calls es1 = 1" "item_reports es1 = []" "put_payloads es1 = []"
    by blast
  from get_profile_events[OF g2] obtain es2 where
    w2: "w2 = ?wa @ es2" and es2: "n_calls es2 = 1" "item_reports es2 = []" "put_payloads es2 = []"
    by blast
  have n2: "n_calls w2 = n_calls w + 2"
    using w2 wa w1 es1 es2 by (simp add: n_calls_append profile_not_found_def n_calls_Cons)
  have step: "\<And>rest. geo_targeting_batch e token city_targets (a # rest) w
               = geo_targeting_batch e token city_targets rest ?wa"
    using g1 f1 wa by (simp add: profile_not_found_def)
  let ?ok = "Ui UiSuccess [S ''Geo targeting updated for Line Item ID: '', V b]"
  let ?put = "Http (geo_put_request token p2 city_targets) (Response resp)"
  have u: "update_line_item_profile_geo e token p2 city_targets w2 = (Inr True, w2 @ [?put])"
    using put ok n2 by (simp add: geo_put_succeeds)
  have run: "geo_targeting_batch e token city_targets [a, b] w = (Inr (), w2 @ [?put, ?ok])"
    using step[of "[b]"] g2 t2 u by simp
  have all: "w2 @ [?put, ?ok] = w @ (es1 @ [profile_not_found a] @ es2 @ [?put, ?ok])"
    using w2 wa w1 by simp
  have r: "item_reports (es1 @ [profile_not_found a] @ es2 @ [?put, ?ok]) = [(a, False), (b, True)]"
    using es1 es2 by (simp add: item_reports_Cons item_report_def profile_not_found_def)
  have p: "put_payloads (es1 @ [profile_not_found a] @ es2 @ [?put, ?ok])
           = [payload (geo_put_request token p2 city_targets)]"
    using es1 es2
    by (simp add: profile_not_found_def geo_put_request_def put_payloads_append put_payloads_simps)
  have n: "n_calls (w2 @ [?put, ?ok]) = n_calls w + 3"
    using n2 by (simp add: n_calls_append n_calls_Cons n_calls_Nil)
  show ?thesis
    using run r p n unfolding all by simp
qed

text \<open>
  C5, as the code has it. The loop handles the items one after the other. An item whose
  profile lookup returns nothing (the request failed, the body was not JSON, or the reply
  had not the expected shape, so that the lookup returned \<open>None\<close>, or the profile id is
  falsy) is shown as failed and the loop goes on with the items that follow. An item whose
  lookup gives a profile id is updated, shown as updated or as failed as the update
  returned, and the loop goes on with the items that follow. When the loop ends normally,
  every item of the batch has exactly one report, in the order of the batch. In
  particular, when the lookup of \<open>a\<close> gives nothing, the lookup of \<open>b\<close> gives a profile id and
  the PUT for that profile succeeds, the batch \<open>[a, b]\<close> ends normally, reports \<open>a\<close> as
  failed and \<open>b\<close> as updated and nothing else, sends exactly one PUT, the one for the
  profile of \<open>b\<close>, and makes three HTTP calls in all. (A lookup that raises is not caught
  by the loop: the counterexample below shows a reply without \<open>profile_id\<close> ending the
  batch at its first item.)
\<close>

theorem geo_batch_reports_each_item:
  "(\<forall>p. fst (get_profile_id_for_line_item e token a w) = Inr p \<and> \<not> truthy p
      \<longrightarrow> (\<forall>rest. geo_targeting_batch e token city_targets (a # rest) w
                  = geo_targeting_batch e token city_targets rest
                      (after_lookup_failure e token a w)))
   \<and> (\<forall>p ok. fst (get_profile_id_for_line_item e token a w) = Inr p \<and> truthy p
         \<and> fst (update_line_item_profile_geo e token p city_targets
                  (snd (get_profile_id_for_line_item e token a w))) = Inr ok
      \<longrightarrow> (\<forall>rest. geo_targeting_batch e token city_targets (a # rest) w
                  = geo_targeting_batch e token city_targets rest
                      (snd (update_line_item_profile_geo e token p city_targets
                              (snd (get_profile_id_for_line_item e token a w)))
                       @ [item_outcome a ok])))
   \<and> (\<forall>ids w'. geo_targeting_batch e token city_targets ids w = (Inr (), w')
      \<longrightarrow> (\<exists>es. w' = w @ es \<and> map fst (item_reports es) = ids))
   \<and> (\<forall>p1 p2 b resp.
        fst (get_profile_id_for_line_item e token a w) = Inr p1 \<and> \<not> truthy p1
        \<and> fst (get_profile_id_for_line_item e token b (after_lookup_failure e token a w)) = Inr p2
        \<and> truthy p2
        \<and> net e (n_calls w + 2) (geo_put_request token p2 city_targets) = Response resp
        \<and> status_error resp = None
      \<longrightarrow> fst (geo_targeting_batch e token city_targets [a, b] w) = Inr ()
        \<and> item_reports (drop (length w) (snd (geo_targeting_batch e token city_targets [a, b] w)))
            = [(a, False), (b, True)]
        \<and> put_payloads (drop (length w) (snd (geo_targeting_batch e token city_targets [a, b] w)))
            = [payload (geo_put_request token p2 city_targets)]
        \<and> n_calls (snd (geo_targeting_batch e token city_targets [a, b] w)) = n_calls w + 3)"
proof (intro conjI)
  show "\<forall>p. fst (get_profile_id_for_line_item e token a w) = Inr p \<and> \<not> truthy p
      \<longrightarrow> (\<forall>rest. geo_targeting_batch e token city_targets (a # rest) w
                  = geo_targeting_batch e token city_targets rest
                      (after_lookup_failure e token a w))"
    by (intro allI impI, elim conjE, rule geo_batch_step_nothing, assumption+)
next
  show "\<forall>p ok. fst (get_profile_id_for_line_item e token a w) = Inr p \<and> truthy p
         \<and> fst (update_line_item_profile_geo e token p city_targets
                  (snd (get_profile_id_for_line_item e token a w))) = Inr ok
      \<longrightarrow> (\<forall>rest. geo_targeting_batch e token city_targets (a # rest) w
                  = geo_targeting_batch e token city_targets rest
                      (snd (update_line_item_profile_geo e token p city_targets
                              (snd (get_profile_id_for_line_item e token a w)))
                       @ [item_outcome a ok]))"
    by (intro allI impI, elim conjE, rule geo_batch_step_found, assumption+)
next
  show "\<forall>ids w'. geo_targeting_batch e token city_targets ids w = (Inr (), w')
      \<longrightarrow> (\<exists>es. w' = w @ es \<and> map fst (item_reports es) = ids)"
    by (intro allI impI, erule batch_reports_every_item)
next
  show "\<forall>p1 p2 b resp.
        fst (get_profile_id_for_line_item e token a w) = Inr p1 \<and> \<not> truthy p1
        \<and> fst (get_profile_id_for_line_item e token b (after_lookup_failure e token a w)) = Inr p2
        \<and> truthy p2
        \<and> net e (n_calls w + 2) (geo_put_request token p2 city_targets) = Response resp
        \<and> status_error resp = None
      \<longrightarrow> fst (geo_targeting_batch e token city_targets [a, b] w) = Inr ()
        \<and> item_reports (drop (length w) (snd (geo_targeting_batch e token city_targets [a, b] w)))
            = [(a, False), (b, True)]
        \<and> put_payloads (drop (length w) (snd (geo_targeting_batch e token city_targets [a, b] w)))
            = [payload (geo_put_request token p2 city_targets)]
        \<and> n_calls (snd (geo_targeting_batch e token city_targets [a, b] w)) = n_calls w + 3"
    by (intro allI impI, elim conjE, rule geo_batch_scenario, assumption+)
qed

theorem geo_batch_reports_each_item_witness:
  "(let e = scripted [transport_error, profile_reply 9001, ok_reply] ok_reply
    in fst (geo_targeting_batch e ''token'' cities [JInt 111, JInt 222] []) = Inr ()
    \<and> item_reports (drop (length ([]::world)) (snd (geo_targeting_batch e ''token'' cities [JInt 111, JInt 222] [])))
        = [(JInt 111, False), (JInt 222, True)]
    \<and> put_payloads (drop (length ([]::world)) (snd (geo_targeting_batch e ''token'' cities [JInt 111, JInt 222] [])))
        = [payload (geo_put_request ''token'' (JInt 9001) cities)]
    \<and> n_calls (snd (geo_targeting_batch e ''token'' cities [JInt 111, JInt 222] [])) = n_calls [] + 3)"
proof -
  let ?e = "scripted [transport_error, profile_reply 9001, ok_reply] ok_reply"
  let ?resp = "\<lparr>status_error = None,
                  json_body = Inr (JObj [(''response'', JObj [(''status'', JStr ''OK'')])]),
                  content = []\<rparr>"
  have l1: "fst (get_profile_id_for_line_item ?e ''token'' (JInt 111) []) = Inr JNull"
    by code_simp
  have l2: "fst (get_profile_id_for_line_item ?e ''token'' (JInt 222)
                  (after_lookup_failure ?e ''token'' (JInt 111) [])) = Inr (JInt 9001)"
    by code_simp
  have put: "net ?e (n_calls [] + 2) (geo_put_request ''token'' (JInt 9001) cities)
             = Response ?resp"
    by (simp add: scripted_def ok_reply_def replied_def)
  have h: "fst (get_profile_id_for_line_item ?e ''token'' (JInt 111) []) = Inr JNull
        \<and> \<not> truthy JNull
        \<and> fst (get_profile_id_for_line_item ?e ''token'' (JInt 222)
                 (after_lookup_failure ?e ''token'' (JInt 111) [])) = Inr (JInt 9001)
        \<and> truthy (JInt 9001)
        \<and> net ?e (n_calls [] + 2) (geo_put_request ''token'' (JInt 9001) cities) = Response ?resp
        \<and> status_error ?resp = None"
    using l1 l2 put by simp
  show ?thesis
    unfolding Let_def
    using geo_batch_reports_each_item[where e = ?e and w = "[]" and token = "''token''"
        and a = "JInt 111" and city_targets = cities,
        THEN conjunct2, THEN conjunct2, THEN conjunct2, rule_format, OF h] .
qed

theorem raising_lookup_ends_the_batch_counterexample:
  "(let e = scripted [line_item_without_profile, profile_reply 9001, ok_reply] ok_reply;
        run = geo_targeting_batch e ''token'' cities [JInt 111, JInt 222] []
    in fst run = Inl (key_error ''profile_id'')
     \<and> n_calls (snd run) = 1 \<and> item_reports (snd run) = [] \<and> put_payloads (snd run) = [])"
  by code_simp

section \<open>Cities of a country\<close>

















section \<open>The token and what is logged and shown\<close>

lemma same_view_refl [simp]: "same_view w w"
  by (simp add: same_view_def)

lemma shown_append [simp]: "shown (a @ b) = shown a @ shown b"
  by (simp add: shown_def)

lemma same_view_append: "same_view w w' \<Longrightarrow> same_view (w @ es) (w' @ es)"
  by (simp add: same_view_def n_calls_append)

lemma same_view_http:
  "same_view w w' \<Longrightarrow> same_view (w @ [Http r rep]) (w' @ [Http r' rep'])"
  by (simp add: same_view_def n_calls_append n_calls_Cons shown_def)

lemma agree_pair [simp]: "agree (r, w) (r', w') = (r = r' \<and> same_view w w')"
  by (simp add: agree_def)

lemma agree_bind:
  assumes "agree p q"
    and "\<And>a w w'. same_view w w' \<Longrightarrow> agree (K a w) (K' a w')"
  shows "agree (case p of (a, w) \<Rightarrow> K a w) (case q of (a, w) \<Rightarrow> K' a w)"
  using assms by (cases p; cases q) (auto simp: agree_def)

lemma net_same_replies:
  "same_replies e t t' \<Longrightarrow>
   net e n \<lparr>http_method = m, url = u, headers = auth t, params = p, payload = b\<rparr>
   = net e n \<lparr>http_method = m, url = u, headers = auth t', params = p, payload = b\<rparr>"
proof -
  assume "same_replies e t t'"
  then have "net e n (\<lparr>http_method = m, url = u, headers = [], params = p, payload = b\<rparr>
                       \<lparr>headers := auth t\<rparr>)
    = net e n (\<lparr>http_method = m, url = u, headers = [], params = p, payload = b\<rparr>
                \<lparr>headers := auth t'\<rparr>)"
    unfolding same_replies_def by blast
  then show ?thesis by simp
qed

lemma agree_send_checked:
  assumes "same_replies e t t'" and "same_view w w'"
  shows "agree (send_checked e \<lparr>http_method = m, url = u, headers = auth t, params = p, payload = b\<rparr> w)
               (send_checked e \<lparr>http_method = m, url = u, headers = auth t', params = p, payload = b\<rparr> w')"
proof -
  have n: "n_calls w = n_calls w'" using assms(2) by (simp add: same_view_def)
  have "net e (n_calls w) \<lparr>http_method = m, url = u, headers = auth t, params = p, payload = b\<rparr>
      = net e (n_calls w') \<lparr>http_method = m, url = u, headers = auth t', params = p, payload = b\<rparr>"
    using net_same_replies[OF assms(1)] n by simp
  then show ?thesis
    using assms(2)
    by (auto simp: send_checked_def send_def Let_def same_view_http
             split: reply.splits option.splits)
qed

lemma agree_api_request_failed:
  "same_view w w' \<Longrightarrow> agree (api_request_failed x w) (api_request_failed x w')"
  by (simp add: api_request_failed_def same_view_append)

lemma agree_make_api_request:
  assumes "same_replies e t t'" and "same_view w w'"
  shows "agree (make_api_request e m u (auth t) p b w) (make_api_request e m u (auth t') p b w')"
  unfolding make_api_request_def
  by (rule agree_bind[OF agree_send_checked[OF assms]])
     (auto simp: agree_api_request_failed split: sum.splits)

lemma agree_get_cities:
  assumes "same_replies e t t'" and "same_view w w'"
  shows "agree (get_cities_for_country e t c w) (get_cities_for_country e t' c w')"
  unfolding get_cities_for_country_def
  by (rule agree_bind[OF agree_make_api_request[OF assms]])
     (auto simp: same_view_append split: sum.splits bool.splits)

lemma agree_get_line_item_ids:
  assumes "same_replies e t t'" and "same_view w w'"
  shows "agree (get_line_item_ids_from_io e t i w) (get_line_item_ids_from_io e t' i w')"
  unfolding get_line_item_ids_from_io_def
  by (rule agree_bind[OF agree_make_api_request[OF assms]])
     (auto simp: same_view_append split: sum.splits bool.splits)

lemma agree_get_profile:
  assumes "same_replies e t t'" and "same_view w w'"
  shows "agree (get_profile_id_for_line_item e t i w) (get_profile_id_for_line_item e t' i w')"
  unfolding get_profile_id_for_line_item_def
  by (rule agree_bind[OF agree_make_api_request[OF assms]])
     (auto simp: same_view_append split: sum.splits bool.splits)

lemma agree_retry_from:
  assumes step: "\<And>w w'. same_view w w' \<Longrightarrow> agree (f w) (g w')"
  shows "same_view w w' \<Longrightarrow> agree (retry_from k f w) (retry_from k g w')"
proof (induction "3 - k" arbitrary: k w w')
  case 0
  then have k: "k \<ge> 3" by simp
  from step[OF "0.prems"] k show ?case
    by (cases "f w"; cases "g w'")
       (auto simp: retry_from.simps[of k f w] retry_from.simps[of k g w'] agree_def
             split: sum.splits)
next
  case (Suc n)
  then have k: "\<not> k \<ge> 3" and n: "n = 3 - (k + 1)" by auto
  obtain r w1 where fw: "f w = (r, w1)" by (cases "f w")
  obtain r' w1' where gw: "g w' = (r', w1')" by (cases "g w'")
  from step[OF Suc.prems] fw gw have rr: "r' = r" and v: "same_view w1 w1'"
    by (auto simp: agree_def)
  show ?case
  proof (cases r)
    case (Inr a)
    with fw gw rr v show ?thesis
      by (simp add: retry_from.simps[of k f w] retry_from.simps[of k g w'])
  next
    case (Inl x)
    have "agree (retry_from (k + 1) f (w1 @ [Sleep (wait_exponential k)]))
                (retry_from (k + 1) g (w1' @ [Sleep (wait_exponential k)]))"
      using Suc.hyps(1)[OF n same_view_append[OF v]] .
    with Inl fw gw rr k show ?thesis
      by (simp add: retry_from.simps[of k f w] retry_from.simps[of k g w'])
  qed
qed

lemma agree_geo_failed:
  "same_view w w' \<Longrightarrow> agree (geo_failed p x w) (geo_failed p x w')"
  by (simp add: geo_failed_def same_view_append)

lemma agree_geo_body:
  assumes "same_replies e t t'" and "same_view w w'"
  shows "agree (update_line_item_profile_geo_body e t p c w)
               (update_line_item_profile_geo_body e t' p c w')"
  unfolding update_line_item_profile_geo_body_def geo_put_request_def
  by (rule agree_bind[OF agree_send_checked[OF assms]])
     (auto simp: agree_geo_failed split: sum.splits)

lemma agree_update_geo:
  assumes "same_replies e t t'" and "same_view w w'"
  shows "agree (update_line_item_profile_geo e t p c w) (update_line_item_profile_geo e t' p c w')"
  unfolding update_line_item_profile_geo_def retry_def
  by (rule agree_retry_from[OF agree_geo_body[OF assms(1)] assms(2)])

lemma agree_pixel_failed:
  "same_view w w' \<Longrightarrow> agree (pixel_failed i x w) (pixel_failed i x w')"
  by (simp add: pixel_failed_def same_view_append)

lemma agree_put_pixels:
  assumes "same_replies e t t'" and "same_view w w'"
  shows "agree (put_pixels e t u i px w) (put_pixels e t' u i px w')"
  unfolding put_pixels_def Let_def
  by (rule agree_bind[OF agree_send_checked[OF assms(1) same_view_append[OF assms(2)]]])
     (auto simp: agree_pixel_failed same_view_append split: sum.splits)

lemma agree_upsert_and_put:
  assumes "same_replies e t t'" and "same_view w w'"
  shows "agree (upsert_and_put e t u i pid j w) (upsert_and_put e t' u i pid j w')"
  using assms
  by (auto simp: upsert_and_put_def Let_def agree_pixel_failed same_view_append
        agree_put_pixels split: sum.splits option.splits)

lemma agree_pixel_body:
  assumes "same_replies e t t'" and "same_view w w'"
  shows "agree (update_conversion_pixel_body e t a i pid w)
               (update_conversion_pixel_body e t' a i pid w')"
  unfolding update_conversion_pixel_body_def Let_def get_request_def
  by (rule agree_bind[OF agree_send_checked[OF assms(1) same_view_append[OF assms(2)]]])
     (auto simp: agree_pixel_failed same_view_append agree_upsert_and_put[OF assms(1)]
           split: sum.splits)

lemma agree_update_pixel:
  assumes "same_replies e t t'" and "same_view w w'"
  shows "agree (update_conversion_pixel e t a i pid w) (update_conversion_pixel e t' a i pid w')"
  unfolding update_conversion_pixel_def retry_def
  by (rule agree_retry_from[OF agree_pixel_body[OF assms(1)] assms(2)])

lemma same_view_poll_failed:
  "same_view w w' \<Longrightarrow> same_view (poll_failed x w) (poll_failed x w')"
  by (simp add: poll_failed_def same_view_append)

lemma agree_poll_status:
  assumes "same_replies e t t'"
  shows "same_view w w' \<Longrightarrow> agree (poll_status e t u k w) (poll_status e t' u k w')"
proof (induction "10 - k" arbitrary: k w w')
  case 0
  then show ?case
    by (simp add: poll_status.simps[of e t u k w] poll_status.simps[of e t' u k w'] same_view_append)
next
  case (Suc n)
  then have lt: "k < 10" and n: "n = 10 - (k + 1)" by auto
  have s: "agree (send_checked e (get_request t u) w) (send_checked e (get_request t' u) w')"
    unfolding get_request_def by (rule agree_send_checked[OF assms Suc.prems])
  have IH: "\<And>w w'. same_view w w' \<Longrightarrow>
      agree (poll_status e t u (Suc k) w) (poll_status e t' u (Suc k) w')"
    using Suc.hyps(1)[OF n] by simp
  show ?case
    unfolding poll_status.simps[of e t u k w] poll_status.simps[of e t' u k w']
    using lt
    by (simp only: if_True, intro agree_bind[OF s])
       (auto simp: same_view_poll_failed same_view_append IH split: sum.splits)
qed

lemma agree_download_report:
  assumes "same_replies e t t'" and "same_view w w'"
  shows "agree (download_report e t i w) (download_report e t' i w')"
  unfolding download_report_def Let_def get_request_def
  by (rule agree_bind[OF agree_send_checked[OF assms]])
     (auto simp: same_view_append same_view_def n_calls_append n_calls_Cons shown_def
           split: sum.splits option.splits)

lemma agree_poll_and_download:
  assumes "same_replies e t t'" and "same_view w w'"
  shows "agree (poll_and_download e t i w) (poll_and_download e t' i w')"
proof -
  obtain x w3 where p: "poll_status e t (status_url i) 0 w = (x, w3)"
    by (cases "poll_status e t (status_url i) 0 w")
  obtain x' w3' where p': "poll_status e t' (status_url i) 0 w' = (x', w3')"
    by (cases "poll_status e t' (status_url i) 0 w'")
  from agree_poll_status[OF assms, of "status_url i" 0] p p'
  have xx: "x' = x" and v: "same_view w3 w3'" by (auto simp: agree_def)
  show ?thesis
  proof (cases x)
    case Ready
    obtain d w4 where d: "download_report e t i w3 = (d, w4)"
      by (cases "download_report e t i w3")
    obtain d' w4' where d': "download_report e t' i w3' = (d', w4')"
      by (cases "download_report e t' i w3'")
    from agree_download_report[OF assms(1) v, of i] d d'
    have "d' = d" "same_view w4 w4'" by (auto simp: agree_def)
    with Ready p p' xx d d' show ?thesis by (simp add: poll_and_download_def)
  qed (use p p' xx v in \<open>simp_all add: poll_and_download_def\<close>)
qed

lemma agree_generate:
  assumes "same_replies e t t'" and "same_view w w'"
  shows "agree (generate_and_poll_report e t a c sd ed ri rp w)
               (generate_and_poll_report e t' a c sd ed ri rp w')"
proof -
  let ?p = "if c then (case set_report_field ''start_date'' (JStr sd) rp of
                         Inl x \<Rightarrow> Inl x
                       | Inr p1 \<Rightarrow> set_report_field ''end_date'' (JStr ed) p1)
            else set_report_field ''report_interval'' ri rp"
  show ?thesis
  proof (cases ?p)
    case (Inl x)
    then show ?thesis using assms(2) by (simp add: generate_and_poll_report_def)
  next
    case (Inr rp')
    let ?u = "[S XANDR_BASE_URL, S ''/report?advertiser_id='', S (strip a)]"
    have m: "agree (make_api_request e ''POST'' ?u (auth t) [] (JsonBody rp') w)
                   (make_api_request e ''POST'' ?u (auth t') [] (JsonBody rp') w')"
      by (rule agree_make_api_request[OF assms])
    have k: "\<And>r w w'. same_view w w' \<Longrightarrow>
       agree (case r of
                Inl x \<Rightarrow> (Inl x, w)
              | Inr json_response \<Rightarrow>
                  if \<not> truthy json_response then
                    (Inr CreateFailed,
                     w @ [Ui UiError [S ''Failed to generate the report. Please check the API response.'']])
                  else
                    (let w2 = w @ [Log INFO [S ''API Response: '', V json_response],
                                   Ui UiJson [V json_response]]
                     in case py_get json_response ''report_id'' of
                          Inl x \<Rightarrow> (Inl x, w2)
                        | Inr report_id \<Rightarrow>
                            if \<not> truthy report_id then
                              (Inr NoReportId,
                               w2 @ [Ui UiError [S ''Failed to retrieve report ID. Please check the API response.'']])
                            else
                              (case poll_and_download e t report_id w2 of
                                 (x, w3) \<Rightarrow> (Inr x, w3))))
             (case r of
                Inl x \<Rightarrow> (Inl x, w')
              | Inr json_response \<Rightarrow>
                  if \<not> truthy json_response then
                    (Inr CreateFailed,
                     w' @ [Ui UiError [S ''Failed to generate the report. Please check the API response.'']])
                  else
                    (let w2 = w' @ [Log INFO [S ''API Response: '', V json_response],
                                    Ui UiJson [V json_response]]
                     in case py_get json_response ''report_id'' of
                          Inl x \<Rightarrow> (Inl x, w2)
                        | Inr report_id \<Rightarrow>
                            if \<not> truthy report_id then
                              (Inr NoReportId,
                               w2 @ [Ui UiError [S ''Failed to retrieve report ID. Please check the API response.'']])
                            else
                              (case poll_and_download e t' report_id w2 of
                                 (x, w3) \<Rightarrow> (Inr x, w3))))"
    proof -
      fix r :: "exn + json" and w w' :: world
      assume v: "same_view w w'"
      have pd: "\<And>i w w'. same_view w w' \<Longrightarrow>
          agree (case poll_and_download e t i w of (x, w3) \<Rightarrow> (Inr x :: exn + report_exit, w3))
                (case poll_and_download e t' i w' of (x, w3) \<Rightarrow> (Inr x, w3))"
        by (rule agree_bind[OF agree_poll_and_download[OF assms(1)]]) auto
      show "?thesis r w w'"
        using v by (auto simp: Let_def same_view_append pd split: sum.splits)
    qed
    show ?thesis
      unfolding generate_and_poll_report_def Inr sum.case
      by (rule agree_bind[OF m k])
  qed
qed

lemma agree_geo_batch:
  assumes "same_replies e t t'"
  shows "same_view w w' \<Longrightarrow>
         agree (geo_targeting_batch e t c ids w) (geo_targeting_batch e t' c ids w')"
proof (induction ids arbitrary: w w')
  case Nil
  then show ?case by simp
next
  case (Cons i ids)
  have g: "agree (get_profile_id_for_line_item e t i w) (get_profile_id_for_line_item e t' i w')"
    by (rule agree_get_profile[OF assms Cons.prems])
  have u: "\<And>p w w'. same_view w w' \<Longrightarrow>
      agree (case update_line_item_profile_geo e t p c w of
               (Inl x, w2) \<Rightarrow> (Inl x, w2)
             | (Inr success, w2) \<Rightarrow>
                 geo_targeting_batch e t c ids
                   (w2 @ [if success
                          then Ui UiSuccess [S ''Geo targeting updated for Line Item ID: '', V i]
                          else Ui UiError [S ''Failed to update geo targeting for Line Item ID: '', V i]]))
            (case update_line_item_profile_geo e t' p c w' of
               (Inl x, w2) \<Rightarrow> (Inl x, w2)
             | (Inr success, w2) \<Rightarrow>
                 geo_targeting_batch e t' c ids
                   (w2 @ [if success
                          then Ui UiSuccess [S ''Geo targeting updated for Line Item ID: '', V i]
                          else Ui UiError [S ''Failed to update geo targeting for Line Item ID: '', V i]]))"
    by (rule agree_bind[OF agree_update_geo[OF assms]])
       (auto simp: same_view_append Cons.IH split: sum.splits)
  show ?case
    unfolding geo_targeting_batch.simps
    by (rule agree_bind[OF g])
       (auto simp: same_view_append Cons.IH u split: sum.splits)
qed

lemma agree_pixel_batch:
  assumes "same_replies e t t'"
  shows "same_view w w' \<Longrightarrow>
         agree (conversion_pixel_batch e t a pid ids w) (conversion_pixel_batch e t' a pid ids w')"
proof (induction ids arbitrary: w w')
  case Nil
  then show ?case by simp
next
  case (Cons i ids)
  show ?case
    unfolding conversion_pixel_batch.simps
    by (rule agree_bind[OF agree_update_pixel[OF assms Cons.prems]])
       (auto simp: same_view_append Cons.IH split: sum.splits)
qed

lemma authenticate_success_is_silent:
  "authenticate e username password w = (Inr token, w') \<Longrightarrow> token \<noteq> JNull \<Longrightarrow> shown w' = shown w"
  by (auto simp: authenticate_def send_checked_def send_def Let_def shown_def
           split: reply.splits option.splits sum.splits if_splits bool.splits)

lemma agree_shown: "agree p q \<Longrightarrow> fst p = fst q \<and> shown (snd p) = shown (snd q)"
  by (simp add: agree_def same_view_def)

lemma through_requests_token_blind:
  assumes "ignores_headers e"
  shows "token_blind (through_requests e)"
  unfolding token_blind_def same_replies_def
proof (intro allI impI)
  fix t t' n r
  assume "accepted t \<and> accepted t'"
  then have a: "headers_error (auth t) = None" "headers_error (auth t') = None"
    by (simp_all add: accepted_def)
  have "net e n (r\<lparr>headers := auth t\<rparr>) = net e n (r\<lparr>headers := auth t'\<rparr>)"
    using assms unfolding ignores_headers_def by metis
  then show "net (through_requests e) n (r\<lparr>headers := auth t\<rparr>)
             = net (through_requests e) n (r\<lparr>headers := auth t'\<rparr>)"
    using a by (simp add: through_requests_def)
qed

text \<open>
  C8, as the code has it. No operation writes the token it is given into a log record
  or a message. When what a call gives depends on the token by the check of the header
  value alone, two runs of an operation from the same state that differ in the token
  alone, both tokens being accepted as header values, return the same value and leave
  the same log records and messages. This holds for the transport function, the three
  resolvers, the two mutating calls with their retries, the report orchestration and
  the two batch loops. (The text of an exception and the body of an error reply are
  logged as they come: a token that \<open>requests\<close> refuses as a header value is quoted in the
  exception and so in the log, and so is a token that the server repeats.)
\<close>

theorem logs_and_messages_do_not_depend_on_the_token:
  assumes "token_blind e" and "accepted t" and "accepted t'"
  shows
   "(let a = make_api_request e m u (auth t) p b w; a' = make_api_request e m u (auth t') p b w
     in fst a = fst a' \<and> shown (snd a) = shown (snd a'))
    \<and> (let a = get_cities_for_country e t country w; a' = get_cities_for_country e t' country w
       in fst a = fst a' \<and> shown (snd a) = shown (snd a'))
    \<and> (let a = get_line_item_ids_from_io e t io w; a' = get_line_item_ids_from_io e t' io w
       in fst a = fst a' \<and> shown (snd a) = shown (snd a'))
    \<and> (let a = get_profile_id_for_line_item e t li w; a' = get_profile_id_for_line_item e t' li w
       in fst a = fst a' \<and> shown (snd a) = shown (snd a'))
    \<and> (let a = update_line_item_profile_geo e t prof cts w;
            a' = update_line_item_profile_geo e t' prof cts w
       in fst a = fst a' \<and> shown (snd a) = shown (snd a'))
    \<and> (let a = update_conversion_pixel e t adv li pid w;
            a' = update_conversion_pixel e t' adv li pid w
       in fst a = fst a' \<and> shown (snd a) = shown (snd a'))
    \<and> (let a = generate_and_poll_report e t adv_in custom sd ed ri rp w;
            a' = generate_and_poll_report e t' adv_in custom sd ed ri rp w
       in fst a = fst a' \<and> shown (snd a) = shown (snd a'))
    \<and> (let a = geo_targeting_batch e t cts ids w; a' = geo_targeting_batch e t' cts ids w
       in fst a = fst a' \<and> shown (snd a) = shown (snd a'))
    \<and> (let a = conversion_pixel_batch e t adv pid ids w;
            a' = conversion_pixel_batch e t' adv pid ids w
       in fst a = fst a' \<and> shown (snd a) = shown (snd a'))"
proof -
  have s: "same_replies e t t'"
    using assms unfolding token_blind_def by blast
  show ?thesis
    unfolding Let_def
    using agree_shown[OF agree_make_api_request[OF s same_view_refl, of m u p b w]]
      agree_shown[OF agree_get_cities[OF s same_view_refl, of country w]]
      agree_shown[OF agree_get_line_item_ids[OF s same_view_refl, of io w]]
      agree_shown[OF agree_get_profile[OF s same_view_refl, of li w]]
      agree_shown[OF agree_update_geo[OF s same_view_refl, of prof cts w]]
      agree_shown[OF agree_update_pixel[OF s same_view_refl, of adv li pid w]]
      agree_shown[OF agree_generate[OF s same_view_refl, of adv_in custom sd ed ri rp w]]
      agree_shown[OF agree_geo_batch[OF s same_view_refl, of cts ids w]]
      agree_shown[OF agree_pixel_batch[OF s same_view_refl, of adv pid ids w]]
    by (intro conjI) (elim conjE, assumption)+
qed

theorem logs_and_messages_do_not_depend_on_the_token_witness:
  "(let a = update_conversion_pixel
              (through_requests
                 (scripted [line_item_reply (JArr [pixel 5 ''inactive'']), ok_reply] ok_reply))
              ''token-one'' 7 (JInt 111) 9 [];
        a' = update_conversion_pixel
              (through_requests
                 (scripted [line_item_reply (JArr [pixel 5 ''inactive'']), ok_reply] ok_reply))
              ''token-two'' 7 (JInt 111) 9 []
    in fst a = fst a' \<and> shown (snd a) = shown (snd a'))"
proof -
  have "ignores_headers (scripted [line_item_reply (JArr [pixel 5 ''inactive'']), ok_reply] ok_reply)"
    by (simp add: ignores_headers_def scripted_def)
  then have h: "token_blind (through_requests
      (scripted [line_item_reply (JArr [pixel 5 ''inactive'']), ok_reply] ok_reply))"
    by (rule through_requests_token_blind)
  have a1: "accepted ''token-one''" by code_simp
  have a2: "accepted ''token-two''" by code_simp
  show ?thesis
    using logs_and_messages_do_not_depend_on_the_token[OF h a1 a2,
        where adv = 7 and li = "JInt 111" and pid = 9 and w = "[]"]
    by blast
qed

theorem refused_or_echoed_token_is_logged_counterexample:
  "fst (update_line_item_profile_geo (through_requests (scripted [] ok_reply))
          ''SECRET'' (JInt 42) cities []) = Inr True
   \<and> shown (snd (update_line_item_profile_geo (through_requests (scripted [] ok_reply))
                   ''SECRET'' (JInt 42) cities [])) = []
   \<and> fst (update_line_item_profile_geo (through_requests (scripted [] ok_reply))
          '' SECRET'' (JInt 42) cities []) = Inr False
   \<and> shown (snd (update_line_item_profile_geo (through_requests (scripted [] ok_reply))
                   '' SECRET'' (JInt 42) cities []))
     = [Ui UiError [S ''Error updating geo targeting for profile ID '', V (JInt 42), S '': '',
                    S (''Invalid leading whitespace, reserved character(s), or return character(s) in header value: ''
                       @ quoted '' SECRET'')],
        Log ERROR [S ''Error updating geo targeting for profile ID '', V (JInt 42), S '': '',
                   S (''Invalid leading whitespace, reserved character(s), or return character(s) in header value: ''
                      @ quoted '' SECRET'')]]
   \<and> list_ex (event_holds ''SECRET'')
       (snd (update_conversion_pixel (through_requests (scripted [echoing_error ''SECRET''] ok_reply))
               ''SECRET'' 7 (JInt 111) 5 []))
   \<and> Log ERROR [S ''API Error Response: '', S ''invalid token SECRET'']
       \<in> set (snd (update_conversion_pixel
                      (through_requests (scripted [echoing_error ''SECRET''] ok_reply))
                      ''SECRET'' 7 (JInt 111) 5 []))"
  by code_simp

end
